theory Spec2Isabelle
  imports Complex_Main
begin

section \<open>Exceptions\<close>

text \<open>
  The transports of \<^verbatim>\<open>searx/network/client.py\<close> discriminate on the class of the
  exception that the wrapped transport raises. The classes are those of the libraries
  the module imports: Python's built-in \<^verbatim>\<open>OSError\<close> (\<^verbatim>\<open>socket.gaierror\<close> is one),
  the three errors of \<^verbatim>\<open>python_socks\<close>, and the errors of \<^verbatim>\<open>httpcore\<close>.
  \<open>OtherException\<close> stands for any class outside these families
  (\<^verbatim>\<open>RuntimeError\<close>, \<^verbatim>\<open>TypeError\<close>, ...).
\<close>

datatype exn_class =
    OSError
  | TimeoutError
  | KeyError
  | ProxyConnectionError
  | ProxyTimeoutError
  | SocksProxyError
  | UnsupportedProtocol
  | ProtocolError
  | RemoteProtocolError
  | LocalProtocolError
  | ProxyError
  | TimeoutException
  | NetworkError
  | ConnectError
  | ReadError
  | WriteError
  | CloseError
  | OtherException

text \<open>
  The direct base class of each class, below \<^verbatim>\<open>Exception\<close>:
  \<^verbatim>\<open>python_socks.ProxyConnectionError(OSError)\<close>,
  \<^verbatim>\<open>python_socks.ProxyTimeoutError(TimeoutError)\<close> with the built-in
  \<^verbatim>\<open>TimeoutError(OSError)\<close>, \<^verbatim>\<open>python_socks.ProxyError(Exception)\<close> (here
  \<open>SocksProxyError\<close>, to keep it apart from \<^verbatim>\<open>httpcore.ProxyError\<close>), and in
  \<^verbatim>\<open>httpcore\<close> the two families \<^verbatim>\<open>ProtocolError\<close> and \<^verbatim>\<open>NetworkError\<close>.
\<close>

fun base :: "exn_class \<Rightarrow> exn_class option" where
  "base TimeoutError = Some OSError"
| "base ProxyConnectionError = Some OSError"
| "base ProxyTimeoutError = Some TimeoutError"
| "base RemoteProtocolError = Some ProtocolError"
| "base LocalProtocolError = Some ProtocolError"
| "base ConnectError = Some NetworkError"
| "base ReadError = Some NetworkError"
| "base WriteError = Some NetworkError"
| "base CloseError = Some NetworkError"
| "base _ = None"

text \<open>
  An exception is an instance of a class, either raised by a library (\<open>Exn\<close>) or built
  by the module around the exception it caught, as in \<^verbatim>\<open>httpcore.ConnectError(e)\<close>
  (\<open>Wrapping\<close>).
\<close>

datatype exn = Exn exn_class | Wrapping exn_class exn

fun class_of :: "exn \<Rightarrow> exn_class" where
  "class_of (Exn c) = c"
| "class_of (Wrapping c _) = c"

text \<open>\<^verbatim>\<open>issubclass\<close>: the hierarchy above is at most two levels deep.\<close>

definition issubclass :: "exn_class \<Rightarrow> exn_class \<Rightarrow> bool" where
  "issubclass c d \<longleftrightarrow>
     c = d \<or> base c = Some d \<or> (case base c of None \<Rightarrow> False | Some b \<Rightarrow> base b = Some d)"

definition isinstance :: "exn \<Rightarrow> exn_class \<Rightarrow> bool" where
  "isinstance e d \<longleftrightarrow> issubclass (class_of e) d"

section \<open>The connection pool and its eviction\<close>

text \<open>
  \<^verbatim>\<open>httpcore\<close>'s URL is the tuple (scheme, host, port or None, path); an origin is
  (scheme, host, port). \<^verbatim>\<open>httpcore._utils.url_to_origin\<close> fills in the default port
  from the table \<^verbatim>\<open>{b"http": 80, b"https": 443}\<close>, indexed by the scheme: another
  scheme is a \<^verbatim>\<open>KeyError\<close>.
\<close>

type_synonym origin = "string \<times> string \<times> nat"
type_synonym url = "string \<times> string \<times> nat option \<times> string"

fun url_to_origin :: "url \<Rightarrow> exn + origin" where
  "url_to_origin (scheme, host, explicit_port, path) =
     (if scheme = ''http'' then
        Inr (scheme, host, (case explicit_port of None \<Rightarrow> 80 | Some p \<Rightarrow> p))
      else if scheme = ''https'' then
        Inr (scheme, host, (case explicit_port of None \<Rightarrow> 443 | Some p \<Rightarrow> p))
      else Inl (Exn KeyError))"

text \<open>
  A pooled connection: its identity, its origin, and what \<^verbatim>\<open>aclose()\<close> does when it
  is called (\<open>None\<close>: it closes; \<open>Some e\<close>: it raises \<open>e\<close>).
\<close>

record connection =
  conn_id :: nat
  conn_origin :: origin
  aclose :: "exn option"

datatype log_entry =
    Debug string origin
  | Warning string exn

text \<open>
  The state the transports work on: the connections the pool holds, the records written
  to the module's logger, and the number of calls made so far to the wrapped transport
  (\<^verbatim>\<open>super().arequest\<close>).
\<close>

record net_state =
  pool :: "connection list"
  logged :: "log_entry list"
  calls :: nat

text \<open>
  Modelled from the spec: the two pool operations \<^verbatim>\<open>_connections_for_origin\<close> and
  \<^verbatim>\<open>_remove_from_pool\<close> belong to \<^verbatim>\<open>httpcore.AsyncConnectionPool\<close>, which is not
  part of the repository. The first "enumerates all connections the pool currently holds
  for origin", the second removes one connection "from the pool's registry". The order of
  the list is the order in which the set of connections is iterated.
\<close>

definition connections_for_origin :: "connection list \<Rightarrow> origin \<Rightarrow> connection list" where
  "connections_for_origin p origin = filter (\<lambda>c. conn_origin c = origin) p"

definition remove_from_pool :: "connection \<Rightarrow> connection list \<Rightarrow> connection list" where
  "remove_from_pool connection p = filter (\<lambda>c. c \<noteq> connection) p"

text \<open>
  The loop of \<^verbatim>\<open>close_connections_for_url\<close> (lines 46-51): each connection is removed
  from the pool, then closed; a \<^verbatim>\<open>httpcore.NetworkError\<close> raised by the close is logged
  as a warning and the loop goes on; an exception of another class leaves the loop and
  the function.
\<close>

fun close_each :: "connection list \<Rightarrow> net_state \<Rightarrow> (exn + unit) \<times> net_state" where
  "close_each [] st = (Inr (), st)"
| "close_each (connection # rest) st =
     (let st1 = st\<lparr>pool := remove_from_pool connection (pool st)\<rparr> in
      case aclose connection of
        None \<Rightarrow> close_each rest st1
      | Some e \<Rightarrow>
          if isinstance e NetworkError
          then close_each rest
                 (st1\<lparr>logged := logged st1 @ [Warning ''Error closing an existing connection'' e]\<rparr>)
          else (Inl e, st1))"

definition close_connections_for_url :: "url \<Rightarrow> net_state \<Rightarrow> (exn + unit) \<times> net_state" where
  "close_connections_for_url u st =
     (case url_to_origin u of
        Inl e \<Rightarrow> (Inl e, st)
      | Inr origin \<Rightarrow>
          (let st0 = st\<lparr>logged := logged st @ [Debug ''Drop connections for %r'' origin]\<rparr>;
               connections_to_close = connections_for_origin (pool st0) origin
           in close_each connections_to_close st0))"

section \<open>The transports\<close>

text \<open>
  The wrapped transport (\<^verbatim>\<open>super().arequest\<close>) is a parameter: given the number of
  calls made before this one and the pool, it returns a response or raises, and leaves
  the pool as it likes. A response is kept abstract.
\<close>

type_synonym response = nat
type_synonym wrapped = "nat \<Rightarrow> connection list \<Rightarrow> (exn + response) \<times> connection list"

definition super_arequest :: "wrapped \<Rightarrow> net_state \<Rightarrow> (exn + response) \<times> net_state" where
  "super_arequest inner st =
     (let (r, p) = inner (calls st) (pool st) in (r, st\<lparr>pool := p, calls := Suc (calls st)\<rparr>))"

text \<open>
  What a call of \<^verbatim>\<open>arequest\<close> gives back: the response of the wrapped transport, or
  Python's \<^verbatim>\<open>None\<close> when the body of the function ends without a \<^verbatim>\<open>return\<close>.
\<close>

datatype retval = ImplicitNone | Response response

definition warning :: "string \<Rightarrow> exn \<Rightarrow> net_state \<Rightarrow> net_state" where
  "warning msg e st = st\<lparr>logged := logged st @ [Warning msg e]\<rparr>"

text \<open>\<^verbatim>\<open>AsyncHTTPTransportNoHttp.arequest\<close> (lines 66-67).\<close>

definition arequest_nohttp :: "url \<Rightarrow> net_state \<Rightarrow> (exn + retval) \<times> net_state" where
  "arequest_nohttp u st = (Inl (Exn UnsupportedProtocol), st)"

text \<open>
  \<^verbatim>\<open>AsyncProxyTransportFixed.arequest\<close> (lines 87-107). The first argument of the loop
  is \<^verbatim>\<open>retry\<close>; the \<^verbatim>\<open>except\<close> clauses are tried in the order of the source, and an
  exception raised inside a handler (by the eviction) leaves the function.
\<close>

fun arequest_proxy_loop ::
  "wrapped \<Rightarrow> url \<Rightarrow> nat \<Rightarrow> net_state \<Rightarrow> (exn + retval) \<times> net_state" where
  "arequest_proxy_loop inner u 0 st = (Inr ImplicitNone, st)"
| "arequest_proxy_loop inner u (Suc retry) st =
     (case super_arequest inner st of
        (Inr resp, st1) \<Rightarrow> (Inr (Response resp), st1)
      | (Inl e, st1) \<Rightarrow>
          if isinstance e ProxyConnectionError \<or> isinstance e ProxyTimeoutError
             \<or> isinstance e SocksProxyError
          then (Inl (Wrapping ProxyError e), st1)
          else if isinstance e OSError
          then (Inl (Wrapping NetworkError e), st1)
          else if isinstance e RemoteProtocolError
          then (case close_connections_for_url u st1 of
                  (Inl e', st2) \<Rightarrow> (Inl e', st2)
                | (Inr _, st2) \<Rightarrow>
                    arequest_proxy_loop inner u retry
                      (warning ''httpcore.RemoteProtocolError: retry'' e st2))
          else if isinstance e NetworkError \<or> isinstance e ProtocolError
          then (case close_connections_for_url u st1 of
                  (Inl e', st2) \<Rightarrow> (Inl e', st2)
                | (Inr _, st2) \<Rightarrow> (Inl e, st2))
          else (Inl e, st1))"

definition arequest_proxy :: "wrapped \<Rightarrow> url \<Rightarrow> net_state \<Rightarrow> (exn + retval) \<times> net_state" where
  "arequest_proxy inner u st = arequest_proxy_loop inner u 2 st"

text \<open>\<^verbatim>\<open>AsyncHTTPTransportFixed.arequest\<close> (lines 113-136).\<close>

fun arequest_http_loop ::
  "wrapped \<Rightarrow> url \<Rightarrow> nat \<Rightarrow> net_state \<Rightarrow> (exn + retval) \<times> net_state" where
  "arequest_http_loop inner u 0 st = (Inr ImplicitNone, st)"
| "arequest_http_loop inner u (Suc retry) st =
     (case super_arequest inner st of
        (Inr resp, st1) \<Rightarrow> (Inr (Response resp), st1)
      | (Inl e, st1) \<Rightarrow>
          if isinstance e OSError
          then (Inl (Wrapping ConnectError e), st1)
          else if isinstance e CloseError
          then (case close_connections_for_url u st1 of
                  (Inl e', st2) \<Rightarrow> (Inl e', st2)
                | (Inr _, st2) \<Rightarrow>
                    arequest_http_loop inner u retry
                      (warning ''httpcore.CloseError: retry'' e st2))
          else if isinstance e RemoteProtocolError
          then (case close_connections_for_url u st1 of
                  (Inl e', st2) \<Rightarrow> (Inl e', st2)
                | (Inr _, st2) \<Rightarrow>
                    arequest_http_loop inner u retry
                      (warning ''httpcore.RemoteProtocolError: retry'' e st2))
          else if isinstance e ProtocolError \<or> isinstance e NetworkError
          then (case close_connections_for_url u st1 of
                  (Inl e', st2) \<Rightarrow> (Inl e', st2)
                | (Inr _, st2) \<Rightarrow> (Inl e, st2))
          else (Inl e, st1))"

definition arequest_http :: "wrapped \<Rightarrow> url \<Rightarrow> net_state \<Rightarrow> (exn + retval) \<times> net_state" where
  "arequest_http inner u st = arequest_http_loop inner u 2 st"

text \<open>
  A request is dispatched on the class of the transport it is routed to.
\<close>

datatype transport_class = NoHttp | ProxyFixed | HTTPFixed

fun arequest :: "transport_class \<Rightarrow> wrapped \<Rightarrow> url \<Rightarrow> net_state \<Rightarrow> (exn + retval) \<times> net_state" where
  "arequest NoHttp inner u st = arequest_nohttp u st"
| "arequest ProxyFixed inner u st = arequest_proxy inner u st"
| "arequest HTTPFixed inner u st = arequest_http inner u st"

section \<open>The SSL context cache\<close>

text \<open>
  \<^verbatim>\<open>verify\<close> is \<^verbatim>\<open>True\<close>, \<^verbatim>\<open>False\<close>, the path of a certificate bundle, or an SSL
  context; \<^verbatim>\<open>cert\<close> is \<^verbatim>\<open>None\<close> or a path. An SSL context is an object: it is
  identified by the rank of its construction among all the contexts that
  \<^verbatim>\<open>httpx.create_ssl_context\<close> has built, so that two contexts are the same object exactly
  when their numbers are equal.
\<close>

datatype verify = VerifyBool bool | VerifyPath string | VerifyContext nat

type_synonym cert = "string option"
type_synonym ssl_args = "cert \<times> verify \<times> bool \<times> bool"
type_synonym ssl_key = "string option \<times> cert \<times> verify \<times> bool \<times> bool"

text \<open>
  The globals of the module: the dictionary \<^verbatim>\<open>SSLCONTEXTS\<close>, \<^verbatim>\<open>LOOP\<close>, and the
  contexts built so far, each with the arguments of its construction.
\<close>

record client_state =
  SSLCONTEXTS :: "ssl_key \<rightharpoonup> nat"
  LOOP :: "nat option"
  created :: "ssl_args list"

datatype proxy_type = SOCKS4 | SOCKS5 | HTTP

text \<open>
  The library calls that can fail are parameters: whether \<^verbatim>\<open>httpx.create_ssl_context\<close>
  raises on given arguments (\<open>None\<close>: it builds a context), what
  \<^verbatim>\<open>python_socks.parse_proxy_url\<close> returns, and whether \<^verbatim>\<open>httpx._config.Proxy\<close>
  accepts a URL.
\<close>

record lib =
  create_ssl_context :: "ssl_args \<Rightarrow> exn option"
  parse_proxy_url :: "string \<Rightarrow> exn + (proxy_type \<times> string \<times> nat \<times> string option \<times> string option)"
  Proxy :: "string \<Rightarrow> exn option"

text \<open>\<^verbatim>\<open>get_sslcontexts\<close> (lines 55-60).\<close>

definition get_sslcontexts ::
  "lib \<Rightarrow> string option \<Rightarrow> cert \<Rightarrow> verify \<Rightarrow> bool \<Rightarrow> bool \<Rightarrow> client_state
     \<Rightarrow> (exn + nat) \<times> client_state" where
  "get_sslcontexts L proxy_url cert vfy trust_env http2 st =
     (let key = (proxy_url, cert, vfy, trust_env, http2) in
      case SSLCONTEXTS st key of
        Some ctx \<Rightarrow> (Inr ctx, st)
      | None \<Rightarrow>
          (case create_ssl_context L (cert, vfy, trust_env, http2) of
             Some e \<Rightarrow> (Inl e, st)
           | None \<Rightarrow>
               (let ctx = length (created st) in
                (Inr ctx,
                 st\<lparr>SSLCONTEXTS := (SSLCONTEXTS st)(key \<mapsto> ctx),
                    created := created st @ [(cert, vfy, trust_env, http2)]\<rparr>))))"

text \<open>A run of calls of \<^verbatim>\<open>get_sslcontexts\<close>, whatever each of them gives.\<close>

fun get_sslcontexts_all :: "lib \<Rightarrow> ssl_key list \<Rightarrow> client_state \<Rightarrow> client_state" where
  "get_sslcontexts_all L [] st = st"
| "get_sslcontexts_all L ((proxy_url, cert, vfy, trust_env, http2) # ks) st =
     get_sslcontexts_all L ks (snd (get_sslcontexts L proxy_url cert vfy trust_env http2 st))"

section \<open>The client factory\<close>

definition startswith :: "string \<Rightarrow> string \<Rightarrow> bool" where
  "startswith s p \<longleftrightarrow> take (length p) s = p"

record limits =
  max_connections :: int
  max_keepalive_connections :: int
  keepalive_expiry :: rat

text \<open>
  The keyword arguments the two transports are built with; \<^verbatim>\<open>backend\<close> and
  \<^verbatim>\<open>trust_env\<close> come from \<^verbatim>\<open>TRANSPORT_KWARGS\<close>.
\<close>

record proxy_kwargs =
  p_proxy_type :: proxy_type
  p_proxy_host :: string
  p_proxy_port :: nat
  p_username :: "string option"
  p_password :: "string option"
  p_rdns :: bool
  p_loop :: "nat option"
  p_verify :: verify
  p_http2 :: bool
  p_local_address :: "string option"
  p_max_connections :: int
  p_max_keepalive_connections :: int
  p_keepalive_expiry :: rat
  p_retries :: int
  p_backend :: string
  p_trust_env :: bool

record http_kwargs =
  h_verify :: verify
  h_http2 :: bool
  h_local_address :: "string option"
  h_proxy :: "string option"
  h_limits :: limits
  h_retries :: int
  h_backend :: string
  h_trust_env :: bool

datatype transport =
    AsyncHTTPTransportNoHttp
  | AsyncProxyTransportFixed proxy_kwargs
  | AsyncHTTPTransportFixed http_kwargs

fun class_of_transport :: "transport \<Rightarrow> transport_class" where
  "class_of_transport AsyncHTTPTransportNoHttp = NoHttp"
| "class_of_transport (AsyncProxyTransportFixed _) = ProxyFixed"
| "class_of_transport (AsyncHTTPTransportFixed _) = HTTPFixed"

definition get_loop :: "client_state \<Rightarrow> nat option" where
  "get_loop st = LOOP st"

text \<open>
  The expression
  \<^verbatim>\<open>get_sslcontexts(proxy_url, None, True, False, http2) if verify is True else verify\<close>
  of lines 152 and 171.
\<close>

definition resolve_verify ::
  "lib \<Rightarrow> string option \<Rightarrow> verify \<Rightarrow> bool \<Rightarrow> client_state \<Rightarrow> (exn + verify) \<times> client_state" where
  "resolve_verify L proxy_url vfy http2 st =
     (if vfy = VerifyBool True
      then (case get_sslcontexts L proxy_url None (VerifyBool True) False http2 st of
              (Inl e, st1) \<Rightarrow> (Inl e, st1)
            | (Inr ctx, st1) \<Rightarrow> (Inr (VerifyContext ctx), st1))
      else (Inr vfy, st))"

text \<open>\<^verbatim>\<open>get_transport_for_socks_proxy\<close> (lines 139-166).\<close>

definition get_transport_for_socks_proxy ::
  "lib \<Rightarrow> verify \<Rightarrow> bool \<Rightarrow> string option \<Rightarrow> string \<Rightarrow> limits \<Rightarrow> int \<Rightarrow> client_state
     \<Rightarrow> (exn + transport) \<times> client_state" where
  "get_transport_for_socks_proxy L vfy http2 local_address proxy_url limit retries st =
     (let socks5h = ''socks5h://'';
          rdns = startswith proxy_url socks5h;
          proxy_url1 = (if startswith proxy_url socks5h
                        then ''socks5://'' @ drop (length socks5h) proxy_url
                        else proxy_url)
      in case parse_proxy_url L proxy_url1 of
           Inl e \<Rightarrow> (Inl e, st)
         | Inr (ptype, phost, pport, pusername, ppassword) \<Rightarrow>
             (case resolve_verify L (Some proxy_url1) vfy http2 st of
                (Inl e, st1) \<Rightarrow> (Inl e, st1)
              | (Inr vfy1, st1) \<Rightarrow>
                  (Inr (AsyncProxyTransportFixed
                     \<lparr>p_proxy_type = ptype, p_proxy_host = phost, p_proxy_port = pport,
                      p_username = pusername, p_password = ppassword,
                      p_rdns = rdns,
                      p_loop = get_loop st1,
                      p_verify = vfy1,
                      p_http2 = http2,
                      p_local_address = local_address,
                      p_max_connections = max_connections limit,
                      p_max_keepalive_connections = max_keepalive_connections limit,
                      p_keepalive_expiry = keepalive_expiry limit,
                      p_retries = retries,
                      p_backend = ''asyncio'', p_trust_env = False\<rparr>), st1)))"

text \<open>
  \<^verbatim>\<open>get_transport\<close> (lines 169-181); \<^verbatim>\<open>proxy_url\<close> is \<^verbatim>\<open>None\<close> or a string, and an
  empty string is as false as \<^verbatim>\<open>None\<close>.
\<close>

definition get_transport ::
  "lib \<Rightarrow> verify \<Rightarrow> bool \<Rightarrow> string option \<Rightarrow> string option \<Rightarrow> limits \<Rightarrow> int \<Rightarrow> client_state
     \<Rightarrow> (exn + transport) \<times> client_state" where
  "get_transport L vfy http2 local_address proxy_url limit retries st =
     (case resolve_verify L None vfy http2 st of
        (Inl e, st1) \<Rightarrow> (Inl e, st1)
      | (Inr vfy1, st1) \<Rightarrow>
          (let kwargs = \<lparr>h_verify = vfy1, h_http2 = http2, h_local_address = local_address,
                         h_proxy = None, h_limits = limit, h_retries = retries,
                         h_backend = ''asyncio'', h_trust_env = False\<rparr>
           in case proxy_url of
                None \<Rightarrow> (Inr (AsyncHTTPTransportFixed kwargs), st1)
              | Some p \<Rightarrow>
                  if p = [] then (Inr (AsyncHTTPTransportFixed kwargs), st1)
                  else (case Proxy L p of
                          Some e \<Rightarrow> (Inl e, st1)
                        | None \<Rightarrow>
                            (Inr (AsyncHTTPTransportFixed (kwargs\<lparr>h_proxy := Some p\<rparr>)), st1))))"

text \<open>
  \<^verbatim>\<open>iter_proxies\<close> (lines 184-190): the setting is a string, a dictionary (its items in
  order), or anything else, which yields nothing.
\<close>

datatype proxies = ProxiesOther | ProxiesStr string | ProxiesDict "(string \<times> string) list"

fun iter_proxies :: "proxies \<Rightarrow> (string \<times> string) list" where
  "iter_proxies (ProxiesStr p) = [(''all://'', p)]"
| "iter_proxies (ProxiesDict items) = items"
| "iter_proxies ProxiesOther = []"

text \<open>The loop of \<^verbatim>\<open>new_client\<close> (lines 205-218) over the pairs of \<^verbatim>\<open>iter_proxies\<close>.\<close>

fun mount_proxies ::
  "lib \<Rightarrow> bool \<Rightarrow> verify \<Rightarrow> bool \<Rightarrow> string option \<Rightarrow> limits \<Rightarrow> int
     \<Rightarrow> (string \<times> string) list \<Rightarrow> (string \<rightharpoonup> transport) \<Rightarrow> client_state
     \<Rightarrow> (exn + (string \<rightharpoonup> transport)) \<times> client_state" where
  "mount_proxies L enable_http vfy enable_http2 local_address limit retries [] mounts st =
     (Inr mounts, st)"
| "mount_proxies L enable_http vfy enable_http2 local_address limit retries
       ((pattern, proxy_url) # rest) mounts st =
     (if \<not> enable_http \<and> (pattern = ''http'' \<or> startswith pattern ''http://'')
      then mount_proxies L enable_http vfy enable_http2 local_address limit retries rest mounts st
      else if startswith proxy_url ''socks4://'' \<or> startswith proxy_url ''socks5://''
              \<or> startswith proxy_url ''socks5h://''
      then (case get_transport_for_socks_proxy L vfy enable_http2 local_address proxy_url
                   limit retries st of
              (Inl e, st1) \<Rightarrow> (Inl e, st1)
            | (Inr t, st1) \<Rightarrow>
                mount_proxies L enable_http vfy enable_http2 local_address limit retries rest
                  (mounts(pattern \<mapsto> t)) st1)
      else (case get_transport L vfy enable_http2 local_address (Some proxy_url)
                   limit retries st of
              (Inl e, st1) \<Rightarrow> (Inl e, st1)
            | (Inr t, st1) \<Rightarrow>
                mount_proxies L enable_http vfy enable_http2 local_address limit retries rest
                  (mounts(pattern \<mapsto> t)) st1))"

record client =
  c_transport :: transport
  c_mounts :: "string \<rightharpoonup> transport"
  c_max_redirects :: int

text \<open>\<^verbatim>\<open>new_client\<close> (lines 193-224).\<close>

definition new_client ::
  "lib \<Rightarrow> bool \<Rightarrow> verify \<Rightarrow> bool \<Rightarrow> int \<Rightarrow> int \<Rightarrow> rat \<Rightarrow> proxies \<Rightarrow> string option \<Rightarrow> int \<Rightarrow> int
     \<Rightarrow> client_state \<Rightarrow> (exn + client) \<times> client_state" where
  "new_client L enable_http vfy enable_http2 max_conns max_keepalive_conns expiry
       prox local_address retries max_redirects st =
     (let limit = \<lparr>max_connections = max_conns,
                   max_keepalive_connections = max_keepalive_conns,
                   keepalive_expiry = expiry\<rparr>
      in case mount_proxies L enable_http vfy enable_http2 local_address limit retries
                (iter_proxies prox) Map.empty st of
           (Inl e, st1) \<Rightarrow> (Inl e, st1)
         | (Inr mounts, st1) \<Rightarrow>
             (let mounts1 = (if \<not> enable_http
                             then mounts(''http://'' \<mapsto> AsyncHTTPTransportNoHttp)
                             else mounts)
              in case get_transport L vfy enable_http2 local_address None limit retries st1 of
                   (Inl e, st2) \<Rightarrow> (Inl e, st2)
                 | (Inr t, st2) \<Rightarrow>
                     (Inr \<lparr>c_transport = t, c_mounts = mounts1,
                           c_max_redirects = max_redirects\<rparr>, st2)))"

section \<open>The search\<close>

text \<open>
  The values that \<^verbatim>\<open>get_bang_url\<close> may return and that \<^verbatim>\<open>redirect_url\<close> may hold:
  \<^verbatim>\<open>None\<close>, a string, or an object of another type (an integer stands for those).
\<close>

datatype pyval = PyNone | PyStr string | PyInt int

fun is_str :: "pyval \<Rightarrow> bool" where
  "is_str (PyStr _) = True"
| "is_str _ = False"

record EngineRef =
  name :: string
  category :: string

text \<open>\<^verbatim>\<open>external_bang\<close> is \<^verbatim>\<open>None\<close> or a string; timeouts are numbers of seconds.\<close>

record SearchQuery =
  query :: string
  engineref_list :: "EngineRef list"
  timeout_limit :: "rat option"
  external_bang :: "string option"

type_synonym request_params = "(string \<times> string) list"
type_synonym results = "string list"

text \<open>
  The result container, as far as the search writes to it: the redirect URL, the calls of
  \<^verbatim>\<open>extend\<close> (kind and results) and of \<^verbatim>\<open>add_unresponsive_engine\<close> (engine, reason,
  suspended). What the workers write into it from their threads is outside this model.
\<close>

record ResultContainer =
  redirect_url :: pyval
  extended :: "(string \<times> results) list"
  unresponsive_engines :: "(string \<times> string \<times> bool) list"

text \<open>
  Modelled from the spec: the processor of an engine is not part of the repository's
  sources here. It exposes \<^verbatim>\<open>get_params(query, category)\<close>, which returns the
  parameters of the request or \<^verbatim>\<open>None\<close> ("skip this engine"), the engine's
  \<^verbatim>\<open>timeout\<close>, and \<^verbatim>\<open>extend_container_if_suspended(result_container)\<close>: "true
  means the engine is currently in back-off and the orchestrator should skip it, after
  recording a suspended-engine entry".
\<close>

record processor =
  engine_name :: string
  suspended :: bool
  suspend_reason :: string
  get_params :: "SearchQuery \<Rightarrow> string \<Rightarrow> request_params option"
  engine_timeout :: rat

definition add_unresponsive_engine ::
  "string \<Rightarrow> string \<Rightarrow> bool \<Rightarrow> ResultContainer \<Rightarrow> ResultContainer" where
  "add_unresponsive_engine n reason susp rc =
     rc\<lparr>unresponsive_engines := unresponsive_engines rc @ [(n, reason, susp)]\<rparr>"

definition extend_container_if_suspended ::
  "processor \<Rightarrow> ResultContainer \<Rightarrow> bool \<times> ResultContainer" where
  "extend_container_if_suspended pr rc =
     (if suspended pr
      then (True, add_unresponsive_engine (engine_name pr) (suspend_reason pr) True rc)
      else (False, rc))"

text \<open>
  The collaborators of the module: the table \<^verbatim>\<open>PROCESSORS\<close>, the setting
  \<^verbatim>\<open>settings['outgoing']['max_request_timeout']\<close>, the functions \<^verbatim>\<open>get_bang_url\<close> and
  \<^verbatim>\<open>ask\<close>, and, for the threads, which engine's worker is still alive once it has been
  joined (the scheduling of the threads and the clock are not modelled).
\<close>

record env =
  PROCESSORS :: "string \<rightharpoonup> processor"
  max_request_timeout :: "rat option"
  get_bang_url :: "SearchQuery \<Rightarrow> pyval"
  ask :: "SearchQuery \<Rightarrow> results list"
  is_alive_after_join :: "string \<Rightarrow> bool"

text \<open>
  What the search does outside its own object: calls of \<^verbatim>\<open>ask\<close> and
  \<^verbatim>\<open>get_params\<close>, the metrics counter, the threads it starts (engine, query,
  parameters, start time, timeout), and its log records.
\<close>

datatype event =
    Ask
  | Get_params string
  | Counter_inc string
  | Thread_start string string request_params "rat option" "rat option"
  | Logger_debug rat rat "rat option" "rat option"
  | Logger_warning string

text \<open>The slots of a \<^verbatim>\<open>Search\<close> object, and the events so far.\<close>

record Search =
  search_query :: SearchQuery
  result_container :: ResultContainer
  start_time :: "rat option"
  actual_timeout :: "rat option"
  events :: "event list"

definition emit :: "event \<Rightarrow> Search \<Rightarrow> Search" where
  "emit ev s = s\<lparr>events := events s @ [ev]\<rparr>"

text \<open>\<^verbatim>\<open>Search.search_external_bang\<close> (lines 50-62).\<close>

definition search_external_bang :: "env \<Rightarrow> Search \<Rightarrow> bool \<times> Search" where
  "search_external_bang E s =
     (case external_bang (search_query s) of
        None \<Rightarrow> (False, s)
      | Some b \<Rightarrow>
          if b = [] then (False, s)
          else
            (let s1 = s\<lparr>result_container :=
                         (result_container s)\<lparr>redirect_url := get_bang_url E (search_query s)\<rparr>\<rparr>
             in if is_str (redirect_url (result_container s1)) then (True, s1)
                else (False, s1)))"

text \<open>\<^verbatim>\<open>Search.search_answerers\<close> (lines 64-75).\<close>

definition search_answerers :: "env \<Rightarrow> Search \<Rightarrow> bool \<times> Search" where
  "search_answerers E s =
     (let answerers_results = ask E (search_query s);
          s1 = emit Ask s
      in if answerers_results \<noteq> []
         then (True,
               s1\<lparr>result_container :=
                    (result_container s1)\<lparr>extended := extended (result_container s1)
                       @ map (\<lambda>r. (''answer'', r)) answerers_results\<rparr>\<rparr>)
         else (False, s1))"

text \<open>
  The loop of \<^verbatim>\<open>Search._get_requests\<close> (lines 86-104), with its two accumulators
  \<^verbatim>\<open>requests\<close> and \<^verbatim>\<open>default_timeout\<close>. An engine whose name is not a key of
  \<^verbatim>\<open>PROCESSORS\<close> is a \<^verbatim>\<open>KeyError\<close>.
\<close>

type_synonym request = "string \<times> string \<times> request_params"

fun get_requests_loop ::
  "env \<Rightarrow> EngineRef list \<Rightarrow> request list \<Rightarrow> rat \<Rightarrow> Search
     \<Rightarrow> (exn + request list \<times> rat) \<times> Search" where
  "get_requests_loop E [] requests default_timeout s = (Inr (requests, default_timeout), s)"
| "get_requests_loop E (engineref # rest) requests default_timeout s =
     (case PROCESSORS E (name engineref) of
        None \<Rightarrow> (Inl (Exn KeyError), s)
      | Some pr \<Rightarrow>
          (case extend_container_if_suspended pr (result_container s) of
             (True, rc) \<Rightarrow>
               get_requests_loop E rest requests default_timeout (s\<lparr>result_container := rc\<rparr>)
           | (False, rc) \<Rightarrow>
               (let s1 = emit (Get_params (name engineref)) (s\<lparr>result_container := rc\<rparr>) in
                case get_params pr (search_query s) (category engineref) of
                  None \<Rightarrow> get_requests_loop E rest requests default_timeout s1
                | Some request_params \<Rightarrow>
                    get_requests_loop E rest
                      (requests @ [(name engineref, query (search_query s), request_params)])
                      (max default_timeout (engine_timeout pr))
                      (emit (Counter_inc (name engineref)) s1))))"

text \<open>\<^verbatim>\<open>Search._get_requests\<close> (lines 78-127).\<close>

definition get_requests :: "env \<Rightarrow> Search \<Rightarrow> (exn + request list \<times> rat) \<times> Search" where
  "get_requests E s =
     (case get_requests_loop E (engineref_list (search_query s)) [] 0 s of
        (Inl e, s1) \<Rightarrow> (Inl e, s1)
      | (Inr (requests, default_timeout), s1) \<Rightarrow>
          (let query_timeout = timeout_limit (search_query s1);
               timeout =
                 (if max_request_timeout E = None \<and> query_timeout = None
                  then default_timeout
                  else if max_request_timeout E = None \<and> query_timeout \<noteq> None
                  then min default_timeout (the query_timeout)
                  else if max_request_timeout E \<noteq> None \<and> query_timeout = None
                  then min default_timeout (the (max_request_timeout E))
                  else if max_request_timeout E \<noteq> None \<and> query_timeout \<noteq> None
                  then min (the query_timeout) (the (max_request_timeout E))
                  else default_timeout)
           in (Inr (requests, timeout),
               emit (Logger_debug timeout default_timeout query_timeout (max_request_timeout E))
                 s1)))"

text \<open>
  \<^verbatim>\<open>Search.search_multiple_requests\<close> (lines 129-150): one thread is started for each
  request, in order; then each thread that is still alive after its join is recorded as
  unresponsive. The time left for a join is only an argument of the join, whose outcome is
  the collaborator \<open>is_alive_after_join\<close>.
\<close>

definition search_multiple_requests :: "env \<Rightarrow> request list \<Rightarrow> Search \<Rightarrow> Search" where
  "search_multiple_requests E requests s =
     (let s1 = foldl (\<lambda>acc (n, q, request_params).
                        emit (Thread_start n q request_params (start_time acc) (actual_timeout acc))
                          acc) s requests
      in foldl (\<lambda>acc n.
                  emit (Logger_warning (''engine timeout: '' @ n))
                    (acc\<lparr>result_container :=
                           add_unresponsive_engine n ''timeout'' False (result_container acc)\<rparr>))
           s1 (filter (is_alive_after_join E) (map fst requests)))"

text \<open>\<^verbatim>\<open>Search.search_standard\<close> (lines 152-163).\<close>

definition search_standard :: "env \<Rightarrow> Search \<Rightarrow> (exn + bool) \<times> Search" where
  "search_standard E s =
     (case get_requests E s of
        (Inl e, s1) \<Rightarrow> (Inl e, s1)
      | (Inr (requests, timeout), s1) \<Rightarrow>
          (let s2 = s1\<lparr>actual_timeout := Some timeout\<rparr> in
           (Inr True, if requests \<noteq> [] then search_multiple_requests E requests s2 else s2)))"

text \<open>
  \<^verbatim>\<open>Search.search\<close> (lines 166-171); \<open>now\<close> is what \<^verbatim>\<open>default_timer()\<close> returns at
  line 167.
\<close>

definition search :: "env \<Rightarrow> rat \<Rightarrow> Search \<Rightarrow> (exn + ResultContainer) \<times> Search" where
  "search E now s =
     (let s0 = s\<lparr>start_time := Some now\<rparr> in
      case search_external_bang E s0 of
        (True, s1) \<Rightarrow> (Inr (result_container s1), s1)
      | (False, s1) \<Rightarrow>
          (case search_answerers E s1 of
             (True, s2) \<Rightarrow> (Inr (result_container s2), s2)
           | (False, s2) \<Rightarrow>
               (case search_standard E s2 of
                  (Inl e, s3) \<Rightarrow> (Inl e, s3)
                | (Inr _, s3) \<Rightarrow> (Inr (result_container s3), s3))))"

section \<open>Notions used in the statements\<close>

text \<open>
  A connection closes quietly when \<^verbatim>\<open>aclose()\<close> returns, or raises an instance of
  \<^verbatim>\<open>httpcore.NetworkError\<close>, the one class the eviction catches.
\<close>

definition closes_quietly :: "connection \<Rightarrow> bool" where
  "closes_quietly c \<longleftrightarrow> (case aclose c of None \<Rightarrow> True | Some e \<Rightarrow> isinstance e NetworkError)"

text \<open>The warnings of an eviction: one for each connection whose close raises.\<close>

definition close_warnings :: "connection list \<Rightarrow> log_entry list" where
  "close_warnings cs =
     concat (map (\<lambda>c. case aclose c of None \<Rightarrow> []
                      | Some e \<Rightarrow> [Warning ''Error closing an existing connection'' e]) cs)"

text \<open>The connections the loop of the eviction gets to: it stops at the first close that
  raises outside \<^verbatim>\<open>httpcore.NetworkError\<close>.\<close>

fun reached :: "connection list \<Rightarrow> connection list" where
  "reached [] = []"
| "reached (c # cs) = (if closes_quietly c then c # reached cs else [c])"

text \<open>
  The stale-connection class of the direct transport: \<^verbatim>\<open>httpcore.CloseError\<close> (a reset
  by the peer, found by the keepalive sweep) and \<^verbatim>\<open>httpcore.RemoteProtocolError\<close> (the
  server disconnected).
\<close>

definition stale_connection_error :: "exn \<Rightarrow> bool" where
  "stale_connection_error e \<longleftrightarrow> isinstance e CloseError \<or> isinstance e RemoteProtocolError"

definition retry_warning :: "exn \<Rightarrow> string" where
  "retry_warning e = (if isinstance e CloseError then ''httpcore.CloseError: retry''
                      else ''httpcore.RemoteProtocolError: retry'')"

text \<open>A wrapped transport that plays a fixed list of outcomes, one for each call.\<close>

definition scripted :: "(exn + response) list \<Rightarrow> wrapped" where
  "scripted outcomes k p =
     ((if k < length outcomes then outcomes ! k else Inl (Exn OtherException)), p)"

subsection \<open>A pool with two origins\<close>

definition origin_a :: origin where "origin_a = (''https'', ''a.example'', 443)"
definition origin_b :: origin where "origin_b = (''https'', ''b.example'', 443)"
definition url_a :: url where "url_a = (''https'', ''a.example'', None, ''/search'')"

definition conn_a1 :: connection where
  "conn_a1 = \<lparr>conn_id = 1, conn_origin = origin_a, aclose = Some (Exn CloseError)\<rparr>"
definition conn_a2 :: connection where
  "conn_a2 = \<lparr>conn_id = 2, conn_origin = origin_a, aclose = None\<rparr>"
definition conn_b1 :: connection where
  "conn_b1 = \<lparr>conn_id = 3, conn_origin = origin_b, aclose = None\<rparr>"
definition conn_a3 :: connection where
  "conn_a3 = \<lparr>conn_id = 4, conn_origin = origin_a, aclose = Some (Exn OtherException)\<rparr>"

definition two_origins :: net_state where
  "two_origins = \<lparr>pool = [conn_a1, conn_b1, conn_a2], logged = [], calls = 0\<rparr>"

definition failing_close :: net_state where
  "failing_close = \<lparr>pool = [conn_a3, conn_b1, conn_a2], logged = [], calls = 0\<rparr>"

text \<open>The pool \<open>two_origins\<close> after one attempt and the eviction of \<open>origin_a\<close>.\<close>

definition evicted_a :: net_state where
  "evicted_a = \<lparr>pool = [conn_b1],
                 logged = [Debug ''Drop connections for %r'' origin_a,
                           Warning ''Error closing an existing connection'' (Exn CloseError)],
                 calls = 1\<rparr>"

subsection \<open>Library calls that succeed, and some states of the cache\<close>

definition lib_ok :: lib where
  "lib_ok = \<lparr>create_ssl_context = (\<lambda>_. None),
             parse_proxy_url = (\<lambda>_. Inr (SOCKS5, ''127.0.0.1'', 9050, None, None)),
             Proxy = (\<lambda>_. None)\<rparr>"

definition key_direct :: ssl_key where
  "key_direct = (None, None, VerifyBool True, False, False)"

definition key_socks :: ssl_key where
  "key_socks = (Some ''socks5://127.0.0.1:9050'', None, VerifyBool True, False, False)"

definition one_cached :: client_state where
  "one_cached = \<lparr>SSLCONTEXTS = [key_direct \<mapsto> 0], LOOP = None,
                  created = [(None, VerifyBool True, False, False)]\<rparr>"

definition two_cached :: client_state where
  "two_cached = \<lparr>SSLCONTEXTS = [key_direct \<mapsto> 0, key_socks \<mapsto> 1], LOOP = None,
                  created = [(None, VerifyBool True, False, False),
                             (None, VerifyBool True, False, False)]\<rparr>"

definition some_keys :: "ssl_key list" where
  "some_keys = [key_direct, (None, None, VerifyBool True, False, True)]"

subsection \<open>A client built with plaintext HTTP disabled\<close>

text \<open>The patterns that \<^verbatim>\<open>new_client\<close> passes over when plaintext HTTP is disabled (line 206).\<close>

definition skipped_pattern :: "string \<Rightarrow> bool" where
  "skipped_pattern pattern \<longleftrightarrow> pattern = ''http'' \<or> startswith pattern ''http://''"

definition example_proxies :: proxies where
  "example_proxies = ProxiesDict [(''http://'', ''http://proxy.example:3128''),
                                  (''http'', ''socks5://127.0.0.1:9050''),
                                  (''https://'', ''socks5h://127.0.0.1:9050'')]"

definition no_contexts :: client_state where
  "no_contexts = \<lparr>SSLCONTEXTS = Map.empty, LOOP = None, created = []\<rparr>"

definition built_client :: client where
  "built_client =
     \<lparr>c_transport = AsyncHTTPTransportFixed
        \<lparr>h_verify = VerifyContext 1, h_http2 = False, h_local_address = None,
         h_proxy = None,
         h_limits = \<lparr>max_connections = 100, max_keepalive_connections = 10,
                     keepalive_expiry = 5\<rparr>,
         h_retries = 0, h_backend = ''asyncio'', h_trust_env = False\<rparr>,
      c_mounts = [''https://'' \<mapsto> AsyncProxyTransportFixed
        \<lparr>p_proxy_type = SOCKS5, p_proxy_host = ''127.0.0.1'', p_proxy_port = 9050,
         p_username = None, p_password = None, p_rdns = True, p_loop = None,
         p_verify = VerifyContext 0, p_http2 = False, p_local_address = None,
         p_max_connections = 100, p_max_keepalive_connections = 10,
         p_keepalive_expiry = 5, p_retries = 0, p_backend = ''asyncio'',
         p_trust_env = False\<rparr>,
        ''http://'' \<mapsto> AsyncHTTPTransportNoHttp],
      c_max_redirects = 30\<rparr>"

definition contexts_after :: client_state where
  "contexts_after =
     \<lparr>SSLCONTEXTS = [(Some ''socks5://127.0.0.1:9050'', None, VerifyBool True, False, False) \<mapsto> 0,
                     (None, None, VerifyBool True, False, False) \<mapsto> 1],
      LOOP = None,
      created = [(None, VerifyBool True, False, False), (None, VerifyBool True, False, False)]\<rparr>"

subsection \<open>The search: accepted engines, and a search with three engines\<close>

text \<open>
  The timeouts of the accepted engines of a query: those whose processor is not suspended
  and returns parameters. The default timeout of the query is their maximum, and at least
  0, the value the loop starts from.
\<close>

definition accepted_timeouts :: "env \<Rightarrow> SearchQuery \<Rightarrow> EngineRef list \<Rightarrow> rat list" where
  "accepted_timeouts E q refs =
     concat (map (\<lambda>r. case PROCESSORS E (name r) of
                          None \<Rightarrow> []
                        | Some pr \<Rightarrow>
                            if \<not> suspended pr \<and> get_params pr q (category r) \<noteq> None
                            then [engine_timeout pr] else []) refs)"

definition default_timeout_of :: "env \<Rightarrow> SearchQuery \<Rightarrow> rat" where
  "default_timeout_of E q = Max (insert 0 (set (accepted_timeouts E q (engineref_list q))))"

text \<open>\<^verbatim>\<open>Search.__init__\<close> (lines 42-48), with the empty container of \<^verbatim>\<open>ResultContainer()\<close>.\<close>

definition Search_init :: "SearchQuery \<Rightarrow> Search" where
  "Search_init q =
     \<lparr>search_query = q,
      result_container = \<lparr>redirect_url = PyNone, extended = [], unresponsive_engines = []\<rparr>,
      start_time = None, actual_timeout = None, events = []\<rparr>"

text \<open>
  Modelled from the spec: \<^verbatim>\<open>get_bang_url\<close> (module \<^verbatim>\<open>searx.external_bang\<close>) is not
  among the sources here. A bang shortcut is "a query prefix that redirects directly to an
  external URL": for a query that matches a registered shortcut the function returns that
  URL, a string that is not empty ("if a bang shortcut matches, ... \<^verbatim>\<open>redirect_url\<close> is
  non-empty"), and for any other query a value that is not a string. So the value it
  returns is never the empty string.
\<close>

definition bang_url_contract :: "pyval \<Rightarrow> bool" where
  "bang_url_contract v \<longleftrightarrow> v \<noteq> PyStr []"


definition processor_fast :: processor where
  "processor_fast = \<lparr>engine_name = ''e1'', suspended = False, suspend_reason = [],
                      get_params = (\<lambda>q c. Some [(''q'', query q)]), engine_timeout = 3\<rparr>"

definition processor_slow :: processor where
  "processor_slow = \<lparr>engine_name = ''e2'', suspended = False, suspend_reason = [],
                      get_params = (\<lambda>q c. Some [(''q'', query q)]), engine_timeout = 10\<rparr>"

definition processor_suspended :: processor where
  "processor_suspended = \<lparr>engine_name = ''e3'', suspended = True,
                           suspend_reason = ''too many requests'',
                           get_params = (\<lambda>q c. Some [(''q'', query q)]), engine_timeout = 20\<rparr>"

definition env_example :: env where
  "env_example = \<lparr>PROCESSORS = [''e1'' \<mapsto> processor_fast, ''e2'' \<mapsto> processor_slow,
                                  ''e3'' \<mapsto> processor_suspended],
                   max_request_timeout = Some 3,
                   get_bang_url = (\<lambda>q. PyNone),
                   ask = (\<lambda>q. []),
                   is_alive_after_join = (\<lambda>n. n = ''e2'')\<rparr>"

definition query_example :: SearchQuery where
  "query_example = \<lparr>query = ''isabelle'',
                     engineref_list = [\<lparr>name = ''e1'', category = ''general''\<rparr>,
                                       \<lparr>name = ''e2'', category = ''general''\<rparr>,
                                       \<lparr>name = ''e3'', category = ''general''\<rparr>],
                     timeout_limit = Some 5, external_bang = None\<rparr>"

definition query_bang :: SearchQuery where
  "query_bang = query_example\<lparr>external_bang := Some ''wiki''\<rparr>"

definition env_redirect :: env where
  "env_redirect = env_example\<lparr>get_bang_url := (\<lambda>q. PyStr ''https://wiki.example/?q=isabelle'')\<rparr>"

section \<open>Eviction\<close>

lemmas example_defs = origin_a_def origin_b_def url_a_def conn_a1_def conn_a2_def conn_b1_def
  conn_a3_def two_origins_def failing_close_def

lemmas run_defs = close_connections_for_url_def connections_for_origin_def
  remove_from_pool_def isinstance_def issubclass_def Let_def closes_quietly_def
  close_warnings_def super_arequest_def scripted_def warning_def
  arequest_http_def arequest_proxy_def numeral_2_eq_2 stale_connection_error_def
  retry_warning_def

lemma close_each_pool_reached:
  "pool (snd (close_each cs st)) = filter (\<lambda>c. c \<notin> set (reached cs)) (pool st)"
  by (induction cs arbitrary: st)
     (auto simp: remove_from_pool_def closes_quietly_def Let_def split: option.splits
           intro: filter_cong)

lemma close_each_calls: "calls (snd (close_each cs st)) = calls st"
  by (induction cs arbitrary: st) (auto simp: Let_def split: option.splits)

lemma close_each_ok_reached: "fst (close_each cs st) = Inr () \<Longrightarrow> reached cs = cs"
  by (induction cs arbitrary: st)
     (auto simp: Let_def closes_quietly_def split: option.splits if_splits)

lemma reached_subset: "set (reached cs) \<subseteq> set cs"
  by (induction cs) (auto split: option.splits)

lemma close_each_quiet: "list_all closes_quietly cs \<Longrightarrow> fst (close_each cs st) = Inr ()"
  by (induction cs arbitrary: st) (auto simp: Let_def closes_quietly_def split: option.splits)

lemma close_each_logged:
  "list_all closes_quietly cs \<Longrightarrow> logged (snd (close_each cs st)) = logged st @ close_warnings cs"
  by (induction cs arbitrary: st)
     (auto simp: Let_def closes_quietly_def close_warnings_def split: option.splits)

lemma close_connections_for_url_calls:
  "close_connections_for_url u s = (r, s') \<Longrightarrow> calls s' = calls s"
proof -
  have "calls (snd (close_connections_for_url u s)) = calls s"
    by (simp add: close_connections_for_url_def close_each_calls Let_def split: sum.splits)
  then show "close_connections_for_url u s = (r, s') \<Longrightarrow> calls s' = calls s" by simp
qed

lemma close_connections_for_url_ok_pool:
  assumes "url_to_origin u = Inr A" and "close_connections_for_url u st = (Inr (), st')"
  shows "pool st' = filter (\<lambda>c. conn_origin c \<noteq> A) (pool st)"
proof -
  let ?cs = "connections_for_origin (pool st) A"
  let ?st0 = "st\<lparr>logged := logged st @ [Debug ''Drop connections for %r'' A]\<rparr>"
  from assms have run: "close_each ?cs ?st0 = (Inr (), st')"
    by (simp add: close_connections_for_url_def Let_def)
  then have "reached ?cs = ?cs"
    using close_each_ok_reached [of ?cs ?st0] by simp
  moreover have "pool st' = filter (\<lambda>c. c \<notin> set (reached ?cs)) (pool st)"
    using close_each_pool_reached [of ?cs ?st0] run by simp
  ultimately have "pool st' = filter (\<lambda>c. c \<notin> set ?cs) (pool st)" by simp
  also have "\<dots> = filter (\<lambda>c. conn_origin c \<noteq> A) (pool st)"
    by (intro filter_cong) (auto simp: connections_for_origin_def)
  finally show ?thesis .
qed

text \<open>
  Claim C7, as stated, fails. The loop of the eviction ends at the first close that raises
  outside \<^verbatim>\<open>httpcore.NetworkError\<close>: in the pool \<open>failing_close\<close> the close of
  \<open>conn_a3\<close> raises such an exception, and \<open>conn_a2\<close>, of the same origin, is still in
  the pool after the eviction of that origin.
\<close>

theorem close_connections_for_url_leaves_connection:
  "url_to_origin url_a = Inr origin_a
   \<and> origin_a \<noteq> origin_b
   \<and> connections_for_origin (pool failing_close) origin_a = [conn_a3, conn_a2]
   \<and> connections_for_origin (pool (snd (close_connections_for_url url_a failing_close)))
        origin_a = [conn_a2]
   \<and> connections_for_origin (pool (snd (close_connections_for_url url_a failing_close)))
        origin_b = [conn_b1]"
  by (simp add: example_defs run_defs)

text \<open>
  Claim C7, amended. Evicting origin \<open>A\<close> from a pool that also holds connections for
  another origin \<open>B\<close>: the connections of \<open>B\<close> are the same before and after, in every
  case; a connection that has left the pool has origin \<open>A\<close>; and when the eviction returns
  without raising, the pool is the old pool without the connections of \<open>A\<close>, none of which
  is left. It returns whenever the connections of \<open>A\<close> close quietly.
\<close>

theorem close_connections_for_url_frame:
  assumes "url_to_origin u = Inr A" and "A \<noteq> B"
    and "close_connections_for_url u st = (r, st')"
  shows "connections_for_origin (pool st') B = connections_for_origin (pool st) B
       \<and> (\<forall>c \<in> set (pool st). c \<notin> set (pool st') \<longrightarrow> conn_origin c = A)
       \<and> (r = Inr () \<longrightarrow> pool st' = filter (\<lambda>c. conn_origin c \<noteq> A) (pool st)
                         \<and> connections_for_origin (pool st') A = [])
       \<and> (list_all closes_quietly (connections_for_origin (pool st) A) \<longrightarrow> r = Inr ())"
proof -
  let ?cs = "connections_for_origin (pool st) A"
  let ?st0 = "st\<lparr>logged := logged st @ [Debug ''Drop connections for %r'' A]\<rparr>"
  from assms have run: "close_each ?cs ?st0 = (r, st')"
    by (simp add: close_connections_for_url_def Let_def)
  have p: "pool st' = filter (\<lambda>c. c \<notin> set (reached ?cs)) (pool st)"
    using close_each_pool_reached [of ?cs ?st0] run by simp
  have sub: "set (reached ?cs) \<subseteq> {c. conn_origin c = A}"
    using reached_subset [of ?cs] by (auto simp: connections_for_origin_def)
  have 1: "connections_for_origin (pool st') B = connections_for_origin (pool st) B"
  proof -
    have "filter (\<lambda>c. conn_origin c = B) (filter (\<lambda>c. c \<notin> set (reached ?cs)) (pool st))
            = filter (\<lambda>c. conn_origin c = B) (pool st)"
      unfolding filter_filter using sub \<open>A \<noteq> B\<close> by (intro filter_cong) auto
    then show ?thesis by (simp add: p connections_for_origin_def)
  qed
  have 2: "\<forall>c \<in> set (pool st). c \<notin> set (pool st') \<longrightarrow> conn_origin c = A"
    unfolding p using sub by auto
  have 3: "pool st' = filter (\<lambda>c. conn_origin c \<noteq> A) (pool st)
           \<and> connections_for_origin (pool st') A = []" if "r = Inr ()"
  proof -
    from that assms have "pool st' = filter (\<lambda>c. conn_origin c \<noteq> A) (pool st)"
      using close_connections_for_url_ok_pool [of u A st st'] by simp
    then show ?thesis by (simp add: connections_for_origin_def)
  qed
  have 4: "r = Inr ()" if "list_all closes_quietly ?cs"
    using close_each_quiet [OF that, of ?st0] run by simp
  from 1 2 3 4 show ?thesis by blast
qed

theorem close_connections_for_url_frame_witness:
  "url_to_origin url_a = Inr origin_a \<and> origin_a \<noteq> origin_b
   \<and> close_connections_for_url url_a two_origins
       = (Inr (), \<lparr>pool = [conn_b1],
                   logged = [Debug ''Drop connections for %r'' origin_a,
                             Warning ''Error closing an existing connection'' (Exn CloseError)],
                   calls = 0\<rparr>)
   \<and> list_all closes_quietly (connections_for_origin (pool two_origins) origin_a)
   \<and> connections_for_origin [conn_b1] origin_b
       = connections_for_origin (pool two_origins) origin_b
   \<and> connections_for_origin [conn_b1] origin_a = []"
proof -
  have h1: "url_to_origin url_a = Inr origin_a" by (simp add: example_defs)
  have h2: "origin_a \<noteq> origin_b" by (simp add: example_defs)
  have h3: "close_connections_for_url url_a two_origins
       = (Inr (), \<lparr>pool = [conn_b1],
                   logged = [Debug ''Drop connections for %r'' origin_a,
                             Warning ''Error closing an existing connection'' (Exn CloseError)],
                   calls = 0\<rparr>)"
    by (simp add: example_defs run_defs)
  have h4: "list_all closes_quietly (connections_for_origin (pool two_origins) origin_a)"
    by (simp add: example_defs run_defs)
  from close_connections_for_url_frame [OF h1 h2 h3]
  have c: "connections_for_origin [conn_b1] origin_b
             = connections_for_origin (pool two_origins) origin_b
           \<and> connections_for_origin [conn_b1] origin_a = []"
    unfolding net_state.simps by blast
  from h1 h2 h3 h4 c show ?thesis by blast
qed

text \<open>
  Claim C8, as stated, fails: the eviction catches \<^verbatim>\<open>httpcore.NetworkError\<close> only. With
  a connection whose close raises an exception of another class (a \<^verbatim>\<open>RuntimeError\<close>,
  say), the eviction raises that exception, writes no warning, and leaves the loop: the
  second connection of the origin stays in the pool.
\<close>

theorem close_connections_for_url_raises:
  "close_connections_for_url url_a failing_close
     = (Inl (Exn OtherException),
        \<lparr>pool = [conn_b1, conn_a2], logged = [Debug ''Drop connections for %r'' origin_a],
         calls = 0\<rparr>)"
  by (simp add: example_defs run_defs)

text \<open>
  Claim C8, amended. For a URL with an origin, if every connection of that origin closes
  quietly (its close returns, or raises an instance of \<^verbatim>\<open>httpcore.NetworkError\<close>), the
  eviction returns without raising, and after the debug record it has logged one warning
  for each close that raised, in order.
\<close>

theorem close_connections_for_url_quiet:
  assumes "url_to_origin u = Inr A"
    and "list_all closes_quietly (connections_for_origin (pool st) A)"
  shows "fst (close_connections_for_url u st) = Inr ()
       \<and> logged (snd (close_connections_for_url u st))
           = logged st @ Debug ''Drop connections for %r'' A
               # close_warnings (connections_for_origin (pool st) A)"
  using assms
  by (simp add: close_connections_for_url_def Let_def close_each_quiet close_each_logged)

theorem close_connections_for_url_quiet_witness:
  "url_to_origin url_a = Inr origin_a
   \<and> list_all closes_quietly (connections_for_origin (pool two_origins) origin_a)
   \<and> fst (close_connections_for_url url_a two_origins) = Inr ()
   \<and> logged (snd (close_connections_for_url url_a two_origins))
       = [Debug ''Drop connections for %r'' origin_a,
          Warning ''Error closing an existing connection'' (Exn CloseError)]"
proof -
  have h1: "url_to_origin url_a = Inr origin_a" by (simp add: example_defs)
  have h2: "list_all closes_quietly (connections_for_origin (pool two_origins) origin_a)"
    by (simp add: example_defs run_defs)
  show ?thesis
    using h1 h2 close_connections_for_url_quiet [OF h1 h2] by (simp add: example_defs run_defs)
qed

section \<open>The retry policy of the transports\<close>

lemma super_arequest_calls: "super_arequest inner s = (r, s') \<Longrightarrow> calls s' = Suc (calls s)"
proof -
  have "calls (snd (super_arequest inner s)) = Suc (calls s)"
    by (simp add: super_arequest_def split: prod.splits)
  then show "super_arequest inner s = (r, s') \<Longrightarrow> calls s' = Suc (calls s)" by simp
qed

lemma arequest_http_loop_calls:
  "calls (snd (arequest_http_loop inner u n s)) \<le> calls s + n"
proof (induction n arbitrary: s)
  case 0
  show ?case by simp
next
  case (Suc n)
  obtain r s1 where a: "super_arequest inner s = (r, s1)" by (cases "super_arequest inner s")
  obtain r2 s2 where c: "close_connections_for_url u s1 = (r2, s2)"
    by (cases "close_connections_for_url u s1")
  have c1: "calls s1 = Suc (calls s)" using super_arequest_calls [OF a] .
  have c2: "calls s2 = calls s1" using close_connections_for_url_calls [OF c] .
  have step: "calls (snd (arequest_http_loop inner u n (warning m e s2))) \<le> calls s + Suc n"
    for m e
    using Suc.IH [of "warning m e s2"] c1 c2 by (simp add: warning_def)
  show ?case
    using a c c1 c2 step by (cases r; cases r2) simp_all
qed

lemma arequest_http_loop_one_calls:
  "calls (snd (arequest_http_loop inner u (Suc 0) s)) = Suc (calls s)"
proof -
  obtain r s1 where a: "super_arequest inner s = (r, s1)" by (cases "super_arequest inner s")
  obtain r2 s2 where c: "close_connections_for_url u s1 = (r2, s2)"
    by (cases "close_connections_for_url u s1")
  have c1: "calls s1 = Suc (calls s)" using super_arequest_calls [OF a] .
  have c2: "calls s2 = calls s1" using close_connections_for_url_calls [OF c] .
  show ?thesis
    using a c c1 c2 by (cases r; cases r2) (simp_all add: warning_def)
qed

text \<open>
  Claim C3, as stated, fails. The first attempt raises \<^verbatim>\<open>CloseError\<close>, of the
  stale-connection class, and a second attempt would be answered. But the eviction meets a
  connection whose close raises outside \<^verbatim>\<open>httpcore.NetworkError\<close>: that exception leaves
  the handler and the call, after one attempt; nothing is tried again, and a connection of
  the origin is still pooled.
\<close>

theorem arequest_http_eviction_raises:
  "stale_connection_error (Exn CloseError)
   \<and> arequest_http (scripted [Inl (Exn CloseError), Inr 7]) url_a failing_close
       = (Inl (Exn OtherException),
          \<lparr>pool = [conn_b1, conn_a2], logged = [Debug ''Drop connections for %r'' origin_a],
           calls = 1\<rparr>)"
  by (simp add: example_defs run_defs)

text \<open>
  Claim C3, amended. In the direct transport, let the first attempt raise \<open>e\<close>, a protocol-
  or network-level error that is not an \<^verbatim>\<open>OSError\<close>, and let the eviction that follows
  return without raising. Then no connection of the request's origin is left in the pool.
  If \<open>e\<close> is of the stale-connection class, exactly one more attempt is made (two in all),
  on the evicted pool, after a warning; if that attempt gives a response, the call returns
  it. Otherwise the call raises \<open>e\<close> after that single attempt. No call makes more than two
  attempts.
\<close>

theorem arequest_http_retry_policy:
  assumes first: "super_arequest inner st = (Inl e, st1)"
    and notos: "\<not> isinstance e OSError"
    and fam: "isinstance e ProtocolError \<or> isinstance e NetworkError"
    and orig: "url_to_origin u = Inr A"
    and evict: "close_connections_for_url u st1 = (Inr (), st2)"
  shows "connections_for_origin (pool st2) A = []
       \<and> (if stale_connection_error e
          then calls (snd (arequest_http inner u st)) = calls st + 2
               \<and> (\<forall>resp st3.
                     super_arequest inner (warning (retry_warning e) e st2) = (Inr resp, st3)
                     \<longrightarrow> arequest_http inner u st = (Inr (Response resp), st3))
          else arequest_http inner u st = (Inl e, st2) \<and> calls st2 = calls st + 1)
       \<and> calls (snd (arequest_http inner u st)) \<le> calls st + 2"
proof -
  have c1: "calls st1 = Suc (calls st)" using super_arequest_calls [OF first] .
  have c2: "calls st2 = calls st1" using close_connections_for_url_calls [OF evict] .
  have gone: "connections_for_origin (pool st2) A = []"
    using close_connections_for_url_ok_pool [OF orig evict]
    by (simp add: connections_for_origin_def)
  have retry: "arequest_http inner u st
                 = arequest_http_loop inner u (Suc 0) (warning (retry_warning e) e st2)"
    if "stale_connection_error e"
    using that first notos evict
    by (auto simp: arequest_http_def numeral_2_eq_2 stale_connection_error_def retry_warning_def)
  have stale: "calls (snd (arequest_http inner u st)) = calls st + 2
               \<and> (\<forall>resp st3.
                     super_arequest inner (warning (retry_warning e) e st2) = (Inr resp, st3)
                     \<longrightarrow> arequest_http inner u st = (Inr (Response resp), st3))"
    if "stale_connection_error e"
    using arequest_http_loop_one_calls [of inner u "warning (retry_warning e) e st2"] c1 c2
    by (auto simp: retry [OF that] warning_def)
  have other: "arequest_http inner u st = (Inl e, st2) \<and> calls st2 = calls st + 1"
    if "\<not> stale_connection_error e"
    using that first notos fam evict c1 c2
    by (auto simp: arequest_http_def numeral_2_eq_2 stale_connection_error_def)
  have bound: "calls (snd (arequest_http inner u st)) \<le> calls st + 2"
    using arequest_http_loop_calls [of inner u 2 st] by (simp add: arequest_http_def)
  from gone stale other bound show ?thesis by simp
qed

theorem arequest_http_retry_policy_witness:
  "super_arequest (scripted [Inl (Exn CloseError), Inr 7]) two_origins
      = (Inl (Exn CloseError), two_origins\<lparr>calls := 1\<rparr>)
   \<and> \<not> isinstance (Exn CloseError) OSError
   \<and> (isinstance (Exn CloseError) ProtocolError \<or> isinstance (Exn CloseError) NetworkError)
   \<and> url_to_origin url_a = Inr origin_a
   \<and> close_connections_for_url url_a (two_origins\<lparr>calls := 1\<rparr>) = (Inr (), evicted_a)
   \<and> stale_connection_error (Exn CloseError)
   \<and> super_arequest (scripted [Inl (Exn CloseError), Inr 7])
        (warning (retry_warning (Exn CloseError)) (Exn CloseError) evicted_a)
      = (Inr 7, evicted_a\<lparr>logged := logged evicted_a
                             @ [Warning ''httpcore.CloseError: retry'' (Exn CloseError)],
                          calls := 2\<rparr>)
   \<and> arequest_http (scripted [Inl (Exn CloseError), Inr 7]) url_a two_origins
      = (Inr (Response 7),
         evicted_a\<lparr>logged := logged evicted_a
                      @ [Warning ''httpcore.CloseError: retry'' (Exn CloseError)],
                   calls := 2\<rparr>)
   \<and> connections_for_origin (pool evicted_a) origin_a = []"
proof -
  let ?inner = "scripted [Inl (Exn CloseError), Inr 7]"
  have h1: "super_arequest ?inner two_origins = (Inl (Exn CloseError), two_origins\<lparr>calls := 1\<rparr>)"
    by (simp add: example_defs run_defs)
  have h2: "\<not> isinstance (Exn CloseError) OSError" by (simp add: run_defs)
  have h3: "isinstance (Exn CloseError) ProtocolError \<or> isinstance (Exn CloseError) NetworkError"
    by (simp add: run_defs)
  have h4: "url_to_origin url_a = Inr origin_a" by (simp add: example_defs)
  have h5: "close_connections_for_url url_a (two_origins\<lparr>calls := 1\<rparr>) = (Inr (), evicted_a)"
    by (simp add: example_defs run_defs evicted_a_def)
  have h6: "stale_connection_error (Exn CloseError)" by (simp add: run_defs)
  have h7: "super_arequest ?inner (warning (retry_warning (Exn CloseError)) (Exn CloseError) evicted_a)
      = (Inr 7, evicted_a\<lparr>logged := logged evicted_a
                             @ [Warning ''httpcore.CloseError: retry'' (Exn CloseError)],
                          calls := 2\<rparr>)"
    by (simp add: example_defs run_defs evicted_a_def)
  from arequest_http_retry_policy [OF h1 h2 h3 h4 h5] h6 h7
  have c: "arequest_http ?inner url_a two_origins
      = (Inr (Response 7),
         evicted_a\<lparr>logged := logged evicted_a
                      @ [Warning ''httpcore.CloseError: retry'' (Exn CloseError)],
                   calls := 2\<rparr>)
      \<and> connections_for_origin (pool evicted_a) origin_a = []"
    by simp
  from h1 h2 h3 h4 h5 h6 h7 c show ?thesis by blast
qed

text \<open>
  A protocol-class error that is not of the stale-connection class: after a
  \<^verbatim>\<open>WriteError\<close> the origin is evicted and the error raised again; the response that a
  second attempt would have got is never asked for.
\<close>

lemma arequest_http_write_error:
  "arequest_http (scripted [Inl (Exn WriteError), Inr 7]) url_a two_origins
     = (Inl (Exn WriteError), evicted_a)"
  by (simp add: example_defs run_defs evicted_a_def)

text \<open>
  Claim C2 does not hold of the code. When both attempts fail with an error that is retried,
  the loop ends with \<^verbatim>\<open>retry == 0\<close> and the function falls off its end: the caller gets
  \<^verbatim>\<open>None\<close>, and no error. Here the direct transport fails with
  \<^verbatim>\<open>RemoteProtocolError\<close> and then \<^verbatim>\<open>CloseError\<close>, the SOCKS transport twice with
  \<^verbatim>\<open>RemoteProtocolError\<close>.
\<close>

theorem arequest_exhausted_returns_none:
  "arequest_http (scripted [Inl (Exn RemoteProtocolError), Inl (Exn CloseError)]) url_a two_origins
     = (Inr ImplicitNone,
        \<lparr>pool = [conn_b1],
         logged = [Debug ''Drop connections for %r'' origin_a,
                   Warning ''Error closing an existing connection'' (Exn CloseError),
                   Warning ''httpcore.RemoteProtocolError: retry'' (Exn RemoteProtocolError),
                   Debug ''Drop connections for %r'' origin_a,
                   Warning ''httpcore.CloseError: retry'' (Exn CloseError)],
         calls = 2\<rparr>)
   \<and> arequest_proxy (scripted [Inl (Exn RemoteProtocolError), Inl (Exn RemoteProtocolError)])
            url_a two_origins
     = (Inr ImplicitNone,
        \<lparr>pool = [conn_b1],
         logged = [Debug ''Drop connections for %r'' origin_a,
                   Warning ''Error closing an existing connection'' (Exn CloseError),
                   Warning ''httpcore.RemoteProtocolError: retry'' (Exn RemoteProtocolError),
                   Debug ''Drop connections for %r'' origin_a,
                   Warning ''httpcore.RemoteProtocolError: retry'' (Exn RemoteProtocolError)],
         calls = 2\<rparr>)"
  by (simp add: example_defs run_defs)

text \<open>The same for every wrapped transport and every state, when the evictions return.\<close>

lemma arequest_http_exhausted:
  assumes "super_arequest inner st = (Inl e1, st1)" "stale_connection_error e1"
    "\<not> isinstance e1 OSError"
    "close_connections_for_url u st1 = (Inr (), st2)"
    "super_arequest inner (warning (retry_warning e1) e1 st2) = (Inl e2, st3)"
    "stale_connection_error e2" "\<not> isinstance e2 OSError"
    "close_connections_for_url u st3 = (Inr (), st4)"
  shows "arequest_http inner u st = (Inr ImplicitNone, warning (retry_warning e2) e2 st4)"
  using assms
  by (auto simp: arequest_http_def numeral_2_eq_2 stale_connection_error_def retry_warning_def)

lemma arequest_proxy_exhausted:
  assumes "super_arequest inner st = (Inl e1, st1)" "isinstance e1 RemoteProtocolError"
    "close_connections_for_url u st1 = (Inr (), st2)"
    "super_arequest inner (warning ''httpcore.RemoteProtocolError: retry'' e1 st2) = (Inl e2, st3)"
    "isinstance e2 RemoteProtocolError"
    "close_connections_for_url u st3 = (Inr (), st4)"
  shows "arequest_proxy inner u st
           = (Inr ImplicitNone, warning ''httpcore.RemoteProtocolError: retry'' e2 st4)"
proof -
  have n: "\<not> isinstance e ProxyConnectionError \<and> \<not> isinstance e ProxyTimeoutError
           \<and> \<not> isinstance e SocksProxyError \<and> \<not> isinstance e OSError"
    if "isinstance e RemoteProtocolError" for e
    using that by (cases "class_of e") (auto simp: isinstance_def issubclass_def)
  show ?thesis
    using assms n [of e1] n [of e2]
    by (auto simp: arequest_proxy_def numeral_2_eq_2)
qed

text \<open>
  Claim C4 does not hold of the SOCKS transport. Its docstring says "Map socket.gaierror to
  httpcore.ConnectError", and line 97 raises \<^verbatim>\<open>httpcore.NetworkError(e)\<close>, the base class,
  which is not a \<^verbatim>\<open>ConnectError\<close>; the direct transport raises
  \<^verbatim>\<open>httpcore.ConnectError(e)\<close> on the same failure. Neither retries: one call is made.
\<close>

theorem arequest_proxy_oserror_network_error:
  "arequest_proxy (scripted [Inl (Exn OSError)]) url_a two_origins
     = (Inl (Wrapping NetworkError (Exn OSError)), two_origins\<lparr>calls := 1\<rparr>)
   \<and> \<not> isinstance (Wrapping NetworkError (Exn OSError)) ConnectError
   \<and> arequest_http (scripted [Inl (Exn OSError)]) url_a two_origins
     = (Inl (Wrapping ConnectError (Exn OSError)), two_origins\<lparr>calls := 1\<rparr>)"
  by (simp add: example_defs run_defs)

text \<open>
  The clauses that raise at once, for every wrapped transport: the state is the one the
  single attempt left, so that nothing is evicted and nothing is tried again.
\<close>

lemma arequest_no_retry:
  assumes "super_arequest inner st = (Inl e, st1)"
  shows "isinstance e OSError \<Longrightarrow> arequest_http inner u st = (Inl (Wrapping ConnectError e), st1)"
    and "isinstance e ProxyConnectionError \<or> isinstance e ProxyTimeoutError \<or> isinstance e SocksProxyError
         \<Longrightarrow> arequest_proxy inner u st = (Inl (Wrapping ProxyError e), st1)"
    and "\<not> (isinstance e ProxyConnectionError \<or> isinstance e ProxyTimeoutError \<or> isinstance e SocksProxyError)
         \<Longrightarrow> isinstance e OSError
         \<Longrightarrow> arequest_proxy inner u st = (Inl (Wrapping NetworkError e), st1)"
    and "class_of e = ProxyError \<Longrightarrow> arequest_http inner u st = (Inl e, st1)"
  using assms
  by (auto simp: arequest_http_def arequest_proxy_def numeral_2_eq_2 isinstance_def issubclass_def)

section \<open>The SSL context cache is a memo table\<close>

lemma get_sslcontexts_keeps:
  "SSLCONTEXTS st k = Some c
   \<Longrightarrow> SSLCONTEXTS (snd (get_sslcontexts L proxy_url cert vfy trust_env http2 st)) k = Some c"
  by (auto simp: get_sslcontexts_def Let_def split: option.splits)

lemma get_sslcontexts_all_keeps:
  "SSLCONTEXTS st k = Some c \<Longrightarrow> SSLCONTEXTS (get_sslcontexts_all L ks st) k = Some c"
proof (induction ks arbitrary: st)
  case Nil
  then show ?case by simp
next
  case (Cons key ks)
  obtain a b c' d e where key: "key = (a, b, c', d, e)" by (cases key)
  show ?case using Cons.prems unfolding key
    by (simp add: Cons.IH get_sslcontexts_keeps)
qed

lemma get_sslcontexts_hit:
  "SSLCONTEXTS st (proxy_url, cert, vfy, trust_env, http2) = Some ctx
   \<Longrightarrow> get_sslcontexts L proxy_url cert vfy trust_env http2 st = (Inr ctx, st)"
  by (simp add: get_sslcontexts_def)

lemma get_sslcontexts_stored:
  "get_sslcontexts L proxy_url cert vfy trust_env http2 st = (Inr ctx, st1)
   \<Longrightarrow> SSLCONTEXTS st1 (proxy_url, cert, vfy, trust_env, http2) = Some ctx"
  by (auto simp: get_sslcontexts_def Let_def split: option.splits)

text \<open>
  Claim C5. Once a call of \<^verbatim>\<open>get_sslcontexts\<close> has returned a context for a key, the
  next call with the same key returns the same object and leaves the state as it is (no
  context is built), also after any run of calls with other keys. The first call builds
  one context exactly when the key was not in the cache, and none otherwise. No entry of
  the cache is ever removed or replaced.
\<close>

theorem get_sslcontexts_cached:
  assumes first: "get_sslcontexts L proxy_url cert vfy trust_env http2 st = (Inr ctx, st1)"
  shows "get_sslcontexts L proxy_url cert vfy trust_env http2 st1 = (Inr ctx, st1)
       \<and> get_sslcontexts L proxy_url cert vfy trust_env http2 (get_sslcontexts_all L ks st1)
           = (Inr ctx, get_sslcontexts_all L ks st1)
       \<and> created st1 = (if SSLCONTEXTS st (proxy_url, cert, vfy, trust_env, http2) = None
                         then created st @ [(cert, vfy, trust_env, http2)] else created st)
       \<and> (\<forall>k c. SSLCONTEXTS st k = Some c
              \<longrightarrow> SSLCONTEXTS (get_sslcontexts_all L ks st1) k = Some c)"
proof -
  have stored: "SSLCONTEXTS st1 (proxy_url, cert, vfy, trust_env, http2) = Some ctx"
    using get_sslcontexts_stored [OF first] .
  have 1: "get_sslcontexts L proxy_url cert vfy trust_env http2 st1 = (Inr ctx, st1)"
    using get_sslcontexts_hit [OF stored] .
  have 2: "get_sslcontexts L proxy_url cert vfy trust_env http2 (get_sslcontexts_all L ks st1)
           = (Inr ctx, get_sslcontexts_all L ks st1)"
    using get_sslcontexts_hit [OF get_sslcontexts_all_keeps [OF stored]] .
  have 3: "created st1 = (if SSLCONTEXTS st (proxy_url, cert, vfy, trust_env, http2) = None
                         then created st @ [(cert, vfy, trust_env, http2)] else created st)"
    using first by (auto simp: get_sslcontexts_def Let_def split: option.splits)
  have 4: "SSLCONTEXTS (get_sslcontexts_all L ks st1) k = Some c" if "SSLCONTEXTS st k = Some c" for k c
  proof -
    have "SSLCONTEXTS st1 k = Some c"
      using get_sslcontexts_keeps [OF that, of L proxy_url cert vfy trust_env http2] first by simp
    then show ?thesis by (rule get_sslcontexts_all_keeps)
  qed
  from 1 2 3 4 show ?thesis by blast
qed

lemmas ssl_defs = lib_ok_def key_direct_def key_socks_def one_cached_def two_cached_def
  get_sslcontexts_def Let_def

theorem get_sslcontexts_cached_witness:
  "get_sslcontexts lib_ok (Some ''socks5://127.0.0.1:9050'') None (VerifyBool True) False False
      one_cached = (Inr 1, two_cached)
   \<and> SSLCONTEXTS one_cached key_direct = Some 0
   \<and> created (get_sslcontexts_all lib_ok some_keys two_cached)
       = created two_cached @ [(None, VerifyBool True, False, True)]
   \<and> get_sslcontexts lib_ok (Some ''socks5://127.0.0.1:9050'') None (VerifyBool True) False False
        two_cached = (Inr 1, two_cached)
   \<and> get_sslcontexts lib_ok (Some ''socks5://127.0.0.1:9050'') None (VerifyBool True) False False
        (get_sslcontexts_all lib_ok some_keys two_cached)
      = (Inr 1, get_sslcontexts_all lib_ok some_keys two_cached)
   \<and> SSLCONTEXTS (get_sslcontexts_all lib_ok some_keys two_cached) key_direct = Some 0"
proof -
  have h1: "get_sslcontexts lib_ok (Some ''socks5://127.0.0.1:9050'') None (VerifyBool True)
              False False one_cached = (Inr 1, two_cached)"
    by (simp add: ssl_defs)
  have h2: "SSLCONTEXTS one_cached key_direct = Some 0" by (simp add: ssl_defs)
  have h3: "created (get_sslcontexts_all lib_ok some_keys two_cached)
              = created two_cached @ [(None, VerifyBool True, False, True)]"
    by (simp add: ssl_defs some_keys_def)
  note c = get_sslcontexts_cached [OF h1, of some_keys]
  from c have c1: "get_sslcontexts lib_ok (Some ''socks5://127.0.0.1:9050'') None
                     (VerifyBool True) False False two_cached = (Inr 1, two_cached)"
    by blast
  from c have c2: "get_sslcontexts lib_ok (Some ''socks5://127.0.0.1:9050'') None
                     (VerifyBool True) False False (get_sslcontexts_all lib_ok some_keys two_cached)
                   = (Inr 1, get_sslcontexts_all lib_ok some_keys two_cached)"
    by blast
  from c h2 have c3: "SSLCONTEXTS (get_sslcontexts_all lib_ok some_keys two_cached) key_direct
                        = Some 0"
    by blast
  from h1 h2 h3 c1 c2 c3 show ?thesis by blast
qed

section \<open>Plaintext HTTP disabled\<close>

lemma mount_proxies_filter:
  assumes "\<not> enable_http"
  shows "mount_proxies L enable_http vfy h2 la limit retries
           (filter (\<lambda>(pattern, proxy_url). \<not> skipped_pattern pattern) items) mounts st
         = mount_proxies L enable_http vfy h2 la limit retries items mounts st"
  using assms
proof (induction items arbitrary: mounts st)
  case Nil
  show ?case by simp
next
  case (Cons item items)
  obtain pattern proxy_url where item: "item = (pattern, proxy_url)" by (cases item)
  show ?case
  proof (cases "skipped_pattern pattern")
    case True
    then show ?thesis using Cons item by (simp add: skipped_pattern_def [symmetric])
  next
    case False
    then show ?thesis using Cons item
      by (auto simp: skipped_pattern_def [symmetric] split: prod.splits sum.splits)
  qed
qed

lemma mount_proxies_skipped:
  assumes "\<not> enable_http" and "skipped_pattern pattern"
    and "mount_proxies L enable_http vfy h2 la limit retries items mounts st = (Inr mounts', st')"
  shows "mounts' pattern = mounts pattern"
  using assms
proof (induction items arbitrary: mounts st)
  case Nil
  then show ?case by simp
next
  case (Cons item items)
  obtain p proxy_url where item: "item = (p, proxy_url)" by (cases item)
  show ?case
  proof (cases "skipped_pattern p")
    case True
    then show ?thesis using Cons item by (simp add: skipped_pattern_def [symmetric])
  next
    case False
    with Cons.prems(2) have ne: "p \<noteq> pattern" by auto
    show ?thesis
    proof (cases "startswith proxy_url ''socks4://'' \<or> startswith proxy_url ''socks5://''
              \<or> startswith proxy_url ''socks5h://''")
      case True
      with Cons.prems(3) False item obtain t st1 where
        g: "get_transport_for_socks_proxy L vfy h2 la proxy_url limit retries st = (Inr t, st1)"
        and r: "mount_proxies L enable_http vfy h2 la limit retries items (mounts(p \<mapsto> t)) st1
                  = (Inr mounts', st')"
        by (auto simp: skipped_pattern_def [symmetric] split: prod.splits sum.splits)
      from Cons.IH [OF Cons.prems(1) Cons.prems(2) r] ne show ?thesis by simp
    next
      case nosocks: False
      with Cons.prems(3) False item obtain t st1 where
        g: "get_transport L vfy h2 la (Some proxy_url) limit retries st = (Inr t, st1)"
        and r: "mount_proxies L enable_http vfy h2 la limit retries items (mounts(p \<mapsto> t)) st1
                  = (Inr mounts', st')"
        by (auto simp: skipped_pattern_def [symmetric] split: prod.splits sum.splits)
      from Cons.IH [OF Cons.prems(1) Cons.prems(2) r] ne show ?thesis by simp
    qed
  qed
qed

text \<open>
  Claim C9. With \<^verbatim>\<open>enable_http\<close> false: \<^verbatim>\<open>new_client\<close> on a proxy mapping does
  exactly what it does on the mapping without the entries whose pattern is \<^verbatim>\<open>'http'\<close> or
  starts with \<^verbatim>\<open>'http://'\<close> (they are skipped: no transport is built for them); in the
  client it returns, \<^verbatim>\<open>'http://'\<close> is mounted to \<^verbatim>\<open>AsyncHTTPTransportNoHttp\<close> and no
  other such pattern is mounted; and every request to that transport raises
  \<^verbatim>\<open>httpcore.UnsupportedProtocol\<close>, whatever the URL and the state.
\<close>

theorem new_client_http_disabled:
  assumes off: "\<not> enable_http"
  shows "new_client L enable_http vfy h2 mc mk ex (ProxiesDict items) la retries mr st
           = new_client L enable_http vfy h2 mc mk ex
               (ProxiesDict (filter (\<lambda>(pattern, proxy_url). \<not> skipped_pattern pattern) items))
               la retries mr st
       \<and> (\<forall>c st'. new_client L enable_http vfy h2 mc mk ex prox la retries mr st = (Inr c, st')
             \<longrightarrow> c_mounts c ''http://'' = Some AsyncHTTPTransportNoHttp
                 \<and> (\<forall>pattern. skipped_pattern pattern \<and> pattern \<noteq> ''http://''
                       \<longrightarrow> c_mounts c pattern = None))
       \<and> arequest (class_of_transport AsyncHTTPTransportNoHttp) inner u nst
           = (Inl (Exn UnsupportedProtocol), nst)"
proof -
  have 1: "new_client L enable_http vfy h2 mc mk ex (ProxiesDict items) la retries mr st
           = new_client L enable_http vfy h2 mc mk ex
               (ProxiesDict (filter (\<lambda>(pattern, proxy_url). \<not> skipped_pattern pattern) items))
               la retries mr st"
    by (simp add: new_client_def mount_proxies_filter [OF off])
  have 2: "c_mounts c ''http://'' = Some AsyncHTTPTransportNoHttp
           \<and> (\<forall>pattern. skipped_pattern pattern \<and> pattern \<noteq> ''http://''
                 \<longrightarrow> c_mounts c pattern = None)"
    if run: "new_client L enable_http vfy h2 mc mk ex prox la retries mr st = (Inr c, st')"
    for c st'
  proof -
    let ?limit = "\<lparr>max_connections = mc, max_keepalive_connections = mk, keepalive_expiry = ex\<rparr>"
    from run off obtain mounts st1 where
      m: "mount_proxies L enable_http vfy h2 la ?limit retries (iter_proxies prox) Map.empty st
            = (Inr mounts, st1)"
      and c: "c_mounts c = mounts(''http://'' \<mapsto> AsyncHTTPTransportNoHttp)"
      by (auto simp: new_client_def Let_def split: prod.splits sum.splits)
    have "mounts pattern = None" if "skipped_pattern pattern" for pattern
      using mount_proxies_skipped [OF off that m] by simp
    with c show ?thesis by simp
  qed
  have 3: "arequest (class_of_transport AsyncHTTPTransportNoHttp) inner u nst
           = (Inl (Exn UnsupportedProtocol), nst)"
    by (simp add: arequest_nohttp_def)
  from 1 2 3 show ?thesis by blast
qed

lemmas client_defs = new_client_def example_proxies_def no_contexts_def lib_ok_def
  startswith_def get_transport_for_socks_proxy_def get_transport_def resolve_verify_def
  get_sslcontexts_def get_loop_def Let_def built_client_def contexts_after_def
  skipped_pattern_def

theorem new_client_http_disabled_witness:
  "\<not> False
   \<and> new_client lib_ok False (VerifyBool True) False 100 10 5 example_proxies None 0 30 no_contexts
       = (Inr built_client, contexts_after)
   \<and> skipped_pattern ''http'' \<and> ''http'' \<noteq> ''http://''
   \<and> c_mounts built_client ''http://'' = Some AsyncHTTPTransportNoHttp
   \<and> c_mounts built_client ''http'' = None
   \<and> new_client lib_ok False (VerifyBool True) False 100 10 5
         (ProxiesDict [(''https://'', ''socks5h://127.0.0.1:9050'')]) None 0 30 no_contexts
       = (Inr built_client, contexts_after)
   \<and> arequest NoHttp (scripted [Inr 7]) url_a two_origins
       = (Inl (Exn UnsupportedProtocol), two_origins)"
proof -
  have h1: "\<not> False" by simp
  have h2: "new_client lib_ok False (VerifyBool True) False 100 10 5 example_proxies None 0 30
              no_contexts = (Inr built_client, contexts_after)"
    by (simp add: client_defs)
  have h3: "skipped_pattern ''http'' \<and> ''http'' \<noteq> ''http://''"
    by (simp add: client_defs)
  have f: "filter (\<lambda>(pattern, proxy_url). \<not> skipped_pattern pattern)
             [(''http://'', ''http://proxy.example:3128''), (''http'', ''socks5://127.0.0.1:9050''),
              (''https://'', ''socks5h://127.0.0.1:9050'')]
           = [(''https://'', ''socks5h://127.0.0.1:9050'')]"
    by (simp add: skipped_pattern_def startswith_def)
  note c = new_client_http_disabled [OF h1, of lib_ok "VerifyBool True" False 100 10 5
      "[(''http://'', ''http://proxy.example:3128''), (''http'', ''socks5://127.0.0.1:9050''),
        (''https://'', ''socks5h://127.0.0.1:9050'')]" None 0 30 no_contexts example_proxies
      "scripted [Inr 7]" url_a two_origins]
  from c h2 have c1: "new_client lib_ok False (VerifyBool True) False 100 10 5
         (ProxiesDict [(''https://'', ''socks5h://127.0.0.1:9050'')]) None 0 30 no_contexts
       = (Inr built_client, contexts_after)"
    unfolding f example_proxies_def by simp
  from c h2 h3 have c2: "c_mounts built_client ''http://'' = Some AsyncHTTPTransportNoHttp
       \<and> c_mounts built_client ''http'' = None"
    by blast
  from c have c3: "arequest NoHttp (scripted [Inr 7]) url_a two_origins
       = (Inl (Exn UnsupportedProtocol), two_origins)"
    by simp
  from h1 h2 h3 c1 c2 c3 show ?thesis by blast
qed

section \<open>The timeout of a search\<close>

lemma Max_insert_max:
  "finite S \<Longrightarrow> Max (insert (max d t) S) = Max (insert d (insert t S))" for d :: rat
  by (cases "S = {}") (simp_all add: max.assoc)

lemma accepted_timeouts_Nil: "accepted_timeouts E q [] = []"
  by (simp add: accepted_timeouts_def)

lemma accepted_timeouts_Cons:
  "PROCESSORS E (name r) = Some pr \<Longrightarrow>
   accepted_timeouts E q (r # refs)
     = (if \<not> suspended pr \<and> get_params pr q (category r) \<noteq> None
        then engine_timeout pr # accepted_timeouts E q refs
        else accepted_timeouts E q refs)"
  by (simp add: accepted_timeouts_def)

lemma get_requests_loop_timeout:
  assumes "\<forall>r \<in> set refs. name r \<in> dom (PROCESSORS E)"
  shows "\<exists>requests' s'.
           get_requests_loop E refs requests d s
             = (Inr (requests', Max (insert d (set (accepted_timeouts E (search_query s) refs)))), s')
           \<and> search_query s' = search_query s"
  using assms
proof (induction refs arbitrary: requests d s)
  case Nil
  show ?case by (simp add: accepted_timeouts_Nil)
next
  case (Cons r refs)
  from Cons.prems obtain pr where pr: "PROCESSORS E (name r) = Some pr" by auto
  from Cons.prems have rest: "\<forall>r \<in> set refs. name r \<in> dom (PROCESSORS E)" by simp
  note IH = Cons.IH [OF rest]
  note at = accepted_timeouts_Cons [OF pr, of "search_query s" refs]
  show ?case
  proof (cases "suspended pr")
    case True
    let ?s1 = "s\<lparr>result_container :=
                   add_unresponsive_engine (engine_name pr) (suspend_reason pr) True
                     (result_container s)\<rparr>"
    from IH [of requests d ?s1] True pr show ?thesis
      by (simp add: extend_container_if_suspended_def at)
  next
    case False
    let ?s1 = "emit (Get_params (name r)) (s\<lparr>result_container := result_container s\<rparr>)"
    show ?thesis
    proof (cases "get_params pr (search_query s) (category r)")
      case None
      from IH [of requests d ?s1] False pr None show ?thesis
        by (simp add: extend_container_if_suspended_def at emit_def)
    next
      case (Some ps)
      let ?s2 = "emit (Counter_inc (name r)) ?s1"
      have m: "Max (insert (max d (engine_timeout pr))
                      (set (accepted_timeouts E (search_query s) refs)))
               = Max (insert d (insert (engine_timeout pr)
                      (set (accepted_timeouts E (search_query s) refs))))"
        by (rule Max_insert_max) simp
      from IH [of "requests @ [(name r, query (search_query s), ps)]"
                  "max d (engine_timeout pr)" ?s2] False pr Some
      show ?thesis
        by (simp add: extend_container_if_suspended_def at emit_def m)
    qed
  qed
qed

text \<open>
  Claim C1. For a search whose engines all have a processor, \<^verbatim>\<open>_get_requests\<close> returns,
  and the timeout it returns follows the table: with \<open>D\<close> the default timeout of the
  accepted engines, \<open>Q\<close> the query's \<^verbatim>\<open>timeout_limit\<close> and \<open>M\<close> the setting
  \<^verbatim>\<open>max_request_timeout\<close>, it is \<open>D\<close> when both are absent, \<open>min D M\<close> when only \<open>M\<close>
  is present, \<open>min D Q\<close> when only \<open>Q\<close> is present, and \<open>min Q M\<close> when both are.
\<close>

theorem get_requests_actual_timeout:
  assumes "\<forall>r \<in> set (engineref_list (search_query s)). name r \<in> dom (PROCESSORS E)"
  shows "\<exists>requests s'.
           get_requests E s
             = (Inr (requests,
                     (case (timeout_limit (search_query s), max_request_timeout E) of
                        (None, None) \<Rightarrow> default_timeout_of E (search_query s)
                      | (None, Some m) \<Rightarrow> min (default_timeout_of E (search_query s)) m
                      | (Some q, None) \<Rightarrow> min (default_timeout_of E (search_query s)) q
                      | (Some q, Some m) \<Rightarrow> min q m)), s')"
proof -
  from get_requests_loop_timeout [OF assms, of "[]" 0 s]
  obtain requests s1 where
    loop: "get_requests_loop E (engineref_list (search_query s)) [] 0 s
             = (Inr (requests, default_timeout_of E (search_query s)), s1)"
    and q: "search_query s1 = search_query s"
    unfolding default_timeout_of_def by blast
  show ?thesis
    by (cases "timeout_limit (search_query s)"; cases "max_request_timeout E")
       (simp_all add: get_requests_def loop q Let_def)
qed

lemmas search_defs = processor_fast_def processor_slow_def processor_suspended_def
  env_example_def query_example_def query_bang_def env_redirect_def
  Search_init_def search_def search_external_bang_def search_answerers_def search_standard_def
  get_requests_def search_multiple_requests_def extend_container_if_suspended_def
  add_unresponsive_engine_def emit_def Let_def

theorem get_requests_actual_timeout_witness:
  "list_all (\<lambda>r. name r \<in> dom (PROCESSORS env_example))
     (engineref_list (search_query (Search_init query_example)))
   \<and> default_timeout_of env_example query_example = 10
   \<and> timeout_limit query_example = Some 5 \<and> max_request_timeout env_example = Some 3
   \<and> map_sum id snd (fst (get_requests env_example (Search_init query_example))) = Inr 3"
proof -
  have h: "\<forall>r \<in> set (engineref_list (search_query (Search_init query_example))).
             name r \<in> dom (PROCESSORS env_example)"
    by (simp add: search_defs)
  have d: "default_timeout_of env_example query_example = 10"
    by (simp add: default_timeout_of_def accepted_timeouts_def search_defs)
  have q: "timeout_limit query_example = Some 5 \<and> max_request_timeout env_example = Some 3"
    by (simp add: search_defs)
  from get_requests_actual_timeout [OF h] obtain requests s' where
    "get_requests env_example (Search_init query_example)
       = (Inr (requests,
               (case (timeout_limit (search_query (Search_init query_example)),
                      max_request_timeout env_example) of
                  (None, None) \<Rightarrow> default_timeout_of env_example
                                    (search_query (Search_init query_example))
                | (None, Some m) \<Rightarrow> min (default_timeout_of env_example
                                    (search_query (Search_init query_example))) m
                | (Some q, None) \<Rightarrow> min (default_timeout_of env_example
                                    (search_query (Search_init query_example))) q
                | (Some q, Some m) \<Rightarrow> min q m)), s')"
    by blast
  then have "map_sum id snd (fst (get_requests env_example (Search_init query_example))) = Inr 3"
    using q by (simp add: Search_init_def)
  moreover have "list_all (\<lambda>r. name r \<in> dom (PROCESSORS env_example))
                   (engineref_list (search_query (Search_init query_example)))"
    using h by (simp only: list_all_iff)
  ultimately show ?thesis using d q by blast
qed

text \<open>The four examples of the specification, with \<open>D = 10\<close>.\<close>

lemma timeout_table_examples:
  "map_sum id snd (fst (get_requests (env_example\<lparr>max_request_timeout := None\<rparr>)
       (Search_init (query_example\<lparr>timeout_limit := None\<rparr>)))) = Inr 10"
  "map_sum id snd (fst (get_requests (env_example\<lparr>max_request_timeout := None\<rparr>)
       (Search_init (query_example\<lparr>timeout_limit := Some 5\<rparr>)))) = Inr 5"
  "map_sum id snd (fst (get_requests (env_example\<lparr>max_request_timeout := Some 7\<rparr>)
       (Search_init (query_example\<lparr>timeout_limit := None\<rparr>)))) = Inr 7"
  "map_sum id snd (fst (get_requests (env_example\<lparr>max_request_timeout := Some 3\<rparr>)
       (Search_init (query_example\<lparr>timeout_limit := Some 5\<rparr>)))) = Inr 3"
  by (simp_all add: search_defs)

section \<open>Bang, answerers, engines\<close>











text \<open>
  Claim C6. When \<^verbatim>\<open>search_external_bang\<close> returns \<^verbatim>\<open>True\<close>, and \<^verbatim>\<open>get_bang_url\<close>
  keeps to its contract, \<^verbatim>\<open>search\<close> returns the container with \<^verbatim>\<open>redirect_url\<close> set
  to what \<^verbatim>\<open>get_bang_url\<close> gave, which is a string and not empty; apart from that and the
  start time the object is unchanged: no event has happened (no call of \<^verbatim>\<open>ask\<close>, no
  processor consulted, no thread started) and \<^verbatim>\<open>actual_timeout\<close> is as before, so that
  neither \<^verbatim>\<open>search_answerers\<close> nor \<^verbatim>\<open>search_standard\<close> has run.
\<close>

theorem search_external_bang_redirects:
  assumes "fst (search_external_bang E s)"
    and contract: "bang_url_contract (get_bang_url E (search_query s))"
  shows "search E now s
           = (Inr ((result_container s)\<lparr>redirect_url := get_bang_url E (search_query s)\<rparr>),
              s\<lparr>start_time := Some now,
                result_container :=
                  (result_container s)\<lparr>redirect_url := get_bang_url E (search_query s)\<rparr>\<rparr>)
       \<and> (\<exists>target. target \<noteq> []
              \<and> redirect_url (result_container (snd (search E now s))) = PyStr target)
       \<and> events (snd (search E now s)) = events s
       \<and> actual_timeout (snd (search E now s)) = actual_timeout s"
proof -
  from assms obtain b where b: "external_bang (search_query s) = Some b" "b \<noteq> []"
    and str: "is_str (get_bang_url E (search_query s))"
    by (auto simp: search_external_bang_def Let_def split: option.splits if_splits)
  from str obtain target where t: "get_bang_url E (search_query s) = PyStr target"
    by (cases "get_bang_url E (search_query s)") auto
  from contract t have ne: "target \<noteq> []" by (simp add: bang_url_contract_def)
  show ?thesis
    using b t ne by (simp add: search_def search_external_bang_def Let_def)
qed

theorem search_external_bang_redirects_witness:
  "fst (search_external_bang env_redirect (Search_init query_bang))
   \<and> bang_url_contract (get_bang_url env_redirect (search_query (Search_init query_bang)))
   \<and> search env_redirect 100 (Search_init query_bang)
       = (Inr \<lparr>redirect_url = PyStr ''https://wiki.example/?q=isabelle'', extended = [],
               unresponsive_engines = []\<rparr>,
          \<lparr>search_query = query_bang,
           result_container = \<lparr>redirect_url = PyStr ''https://wiki.example/?q=isabelle'',
                                 extended = [], unresponsive_engines = []\<rparr>,
           start_time = Some 100, actual_timeout = None, events = []\<rparr>)"
proof -
  have h: "fst (search_external_bang env_redirect (Search_init query_bang))"
    by (simp add: search_defs)
  have c: "bang_url_contract (get_bang_url env_redirect (search_query (Search_init query_bang)))"
    by (simp add: search_defs bang_url_contract_def)
  from search_external_bang_redirects [OF h c, of 100]
  have "search env_redirect 100 (Search_init query_bang)
       = (Inr \<lparr>redirect_url = PyStr ''https://wiki.example/?q=isabelle'', extended = [],
               unresponsive_engines = []\<rparr>,
          \<lparr>search_query = query_bang,
           result_container = \<lparr>redirect_url = PyStr ''https://wiki.example/?q=isabelle'',
                                 extended = [], unresponsive_engines = []\<rparr>,
           start_time = Some 100, actual_timeout = None, events = []\<rparr>)"
    by (simp add: Search_init_def env_redirect_def)
  with h c show ?thesis by blast
qed



end
